theory Spec2Isabelle
  imports Main
begin

section \<open>Values of the host language\<close>

text \<open>
  The Attio server (\<^verbatim>\<open>mcp_servers/attio/index.ts\<close>) handles JSON values that come off the
  wire. A string of the host language is the list of its UTF-16 code units, and \<open>js\<close>
  gives the string that a literal of the source denotes.
\<close>

type_synonym jstring = "nat list"

definition js :: "string \<Rightarrow> jstring" where
  "js s = map of_char s"

text \<open>
  The server does three things with a number: it tests \<^verbatim>\<open>typeof\<close>, it passes the number
  on, and it prints it (in a template literal or with \<^verbatim>\<open>JSON.stringify\<close>). Both ways of
  printing give \<^verbatim>\<open>Number::toString\<close> of the number, so a number is kept as that
  rendering: \<^verbatim>\<open>25\<close> is \<open>Number (js ''25'')\<close>, \<^verbatim>\<open>2.5\<close> is \<open>Number (js ''2.5'')\<close> and
  \<^verbatim>\<open>1e21\<close> is \<open>Number (js ''1e+21'')\<close>.
\<close>

datatype number = Number (Number_toString: jstring)

text \<open>The numbers that are not finite; \<^verbatim>\<open>JSON.parse\<close> gives an infinity for a literal that
  is out of range.\<close>

definition isFinite :: "number \<Rightarrow> bool" where
  "isFinite n = (Number_toString n \<notin> set [js ''Infinity'', js ''-Infinity'', js ''NaN''])"

text \<open>A value that may be \<^verbatim>\<open>undefined\<close> is a \<open>json option\<close>. An object is the list of its
  own properties in enumeration order, with distinct keys.\<close>

datatype json =
    JNull
  | JBool bool
  | JNum number
  | JStr jstring
  | JArr "json list"
  | JObj "(jstring \<times> json) list"

text \<open>Faults are values: the constructor is the class of the thrown object.\<close>

datatype error = Error jstring | TypeError jstring | SyntaxError jstring

fun message :: "error \<Rightarrow> jstring" where
  "message (Error m) = m"
| "message (TypeError m) = m"
| "message (SyntaxError m) = m"

subsection \<open>Strings\<close>

text \<open>
  \<^verbatim>\<open>String.prototype.trim\<close> removes white space and line terminators at both ends:
  TAB, LF, VT, FF, CR, SPACE, NO-BREAK SPACE, U+1680, U+2000 to U+200A, LINE SEPARATOR,
  PARAGRAPH SEPARATOR, U+202F, U+205F, U+3000 and the byte order mark U+FEFF.
\<close>

definition is_white :: "nat \<Rightarrow> bool" where
  "is_white c =
     ((0x09 \<le> c \<and> c \<le> 0x0D) \<or> c = 0x20 \<or> c = 0xA0 \<or> c = 0x1680
      \<or> (0x2000 \<le> c \<and> c \<le> 0x200A) \<or> c = 0x2028 \<or> c = 0x2029 \<or> c = 0x202F
      \<or> c = 0x205F \<or> c = 0x3000 \<or> c = 0xFEFF)"

definition trim :: "jstring \<Rightarrow> jstring" where
  "trim s = rev (dropWhile is_white (rev (dropWhile is_white s)))"

text \<open>\<^verbatim>\<open>s.includes(q)\<close>: \<open>q\<close> occurs in \<open>s\<close> as a contiguous run of code units.\<close>

fun includes_str :: "jstring \<Rightarrow> jstring \<Rightarrow> bool" where
  "includes_str [] q = (q = [])"
| "includes_str (c # s) q = (take (length q) (c # s) = q \<or> includes_str s q)"

text \<open>
  \<^verbatim>\<open>String.prototype.toLowerCase\<close> follows the case mappings of the Unicode tables of
  the runtime. It is a parameter, named \<open>toLowerCase\<close>, of every function that reaches it.
\<close>

subsection \<open>Objects\<close>

text \<open>\<^verbatim>\<open>o[k] = v\<close>, also \<^verbatim>\<open>{...o, k: v}\<close>: an existing property keeps its place, a new one
  goes last.\<close>

fun set_prop :: "(jstring \<times> json) list \<Rightarrow> jstring \<Rightarrow> json \<Rightarrow> (jstring \<times> json) list" where
  "set_prop [] k v = [(k, v)]"
| "set_prop (p # ps) k v = (if fst p = k then (k, v) # ps else p # set_prop ps k v)"

text \<open>\<^verbatim>\<open>{...a, ...b}\<close> on string-valued header objects.\<close>

fun spread :: "(jstring \<times> jstring) list \<Rightarrow> (jstring \<times> jstring) list \<Rightarrow> (jstring \<times> jstring) list" where
  "spread a [] = a"
| "spread a ((k, v) # b) =
     spread (if k \<in> fst ` set a then map (\<lambda>p. if fst p = k then (k, v) else p) a
             else a @ [(k, v)]) b"

text \<open>
  Reading a property \<^verbatim>\<open>x.k\<close> of a value: on \<^verbatim>\<open>null\<close> it throws, on an object it
  gives the property or \<^verbatim>\<open>undefined\<close>, and on any other JSON value none of the keys
  the server reads (\<^verbatim>\<open>title\<close>, \<^verbatim>\<open>content_plaintext\<close>, \<^verbatim>\<open>content_markdown\<close>) exists.
\<close>

fun get_prop :: "json \<Rightarrow> jstring \<Rightarrow> error + json option" where
  "get_prop JNull k =
     Inl (TypeError (js ''Cannot read properties of null (reading '' @ [0x27] @ k @ [0x27]
                     @ js '')''))"
| "get_prop (JObj kvs) k = Inr (map_of kvs k)"
| "get_prop _ k = Inr None"

subsection \<open>\<^verbatim>\<open>JSON.stringify\<close>\<close>

definition hex_digit :: "nat \<Rightarrow> nat" where
  "hex_digit d = (if d < 10 then 48 + d else 87 + d)"

text \<open>\<^verbatim>\<open>\uXXXX\<close> with four lower-case hexadecimal digits.\<close>

definition UnicodeEscape :: "nat \<Rightarrow> jstring" where
  "UnicodeEscape c =
     [0x5C, 0x75, hex_digit (c div 4096 mod 16), hex_digit (c div 256 mod 16),
      hex_digit (c div 16 mod 16), hex_digit (c mod 16)]"

definition is_leading_surrogate :: "nat \<Rightarrow> bool" where
  "is_leading_surrogate c = (0xD800 \<le> c \<and> c \<le> 0xDBFF)"

definition is_trailing_surrogate :: "nat \<Rightarrow> bool" where
  "is_trailing_surrogate c = (0xDC00 \<le> c \<and> c \<le> 0xDFFF)"

text \<open>One code point that is not a surrogate pair: the short escapes, then the control
  characters and the lone surrogates as \<^verbatim>\<open>\uXXXX\<close>, and everything else as it is.\<close>

definition quote_unit :: "nat \<Rightarrow> jstring" where
  "quote_unit c =
     (if c = 0x08 then [0x5C, 0x62]
      else if c = 0x09 then [0x5C, 0x74]
      else if c = 0x0A then [0x5C, 0x6E]
      else if c = 0x0C then [0x5C, 0x66]
      else if c = 0x0D then [0x5C, 0x72]
      else if c = 0x22 then [0x5C, 0x22]
      else if c = 0x5C then [0x5C, 0x5C]
      else if c < 0x20 \<or> is_leading_surrogate c \<or> is_trailing_surrogate c then UnicodeEscape c
      else [c])"

text \<open>A leading surrogate followed by a trailing one is a code point of its own and is
  copied.\<close>

fun quote_units :: "jstring \<Rightarrow> jstring" where
  "quote_units [] = []"
| "quote_units [c] = quote_unit c"
| "quote_units (c # d # cs) =
     (if is_leading_surrogate c \<and> is_trailing_surrogate d then c # d # quote_units cs
      else quote_unit c @ quote_units (d # cs))"

definition QuoteJSONString :: "jstring \<Rightarrow> jstring" where
  "QuoteJSONString s = [0x22] @ quote_units s @ [0x22]"

fun join :: "jstring \<Rightarrow> jstring list \<Rightarrow> jstring" where
  "join sep [] = []"
| "join sep [x] = x"
| "join sep (x # y # ys) = x @ sep @ join sep (y # ys)"

text \<open>
  \<open>SerializeJSON gap indent v\<close> is the serialisation of ECMAScript with the
  indentation unit \<open>gap\<close> at the current indentation \<open>indent\<close>; an empty \<open>gap\<close> gives
  the compact form. A number that is not finite is printed as \<^verbatim>\<open>null\<close>.
\<close>

fun SerializeJSON :: "jstring \<Rightarrow> jstring \<Rightarrow> json \<Rightarrow> jstring" where
  "SerializeJSON gap indent JNull = js ''null''"
| "SerializeJSON gap indent (JBool b) = (if b then js ''true'' else js ''false'')"
| "SerializeJSON gap indent (JNum n) = (if isFinite n then Number_toString n else js ''null'')"
| "SerializeJSON gap indent (JStr s) = QuoteJSONString s"
| "SerializeJSON gap indent (JArr xs) =
     (if xs = [] then js ''[]''
      else let partial = map (SerializeJSON gap (indent @ gap)) xs in
        if gap = [] then js ''['' @ join (js '','') partial @ js '']''
        else js ''['' @ [0x0A] @ (indent @ gap)
             @ join (js '','' @ [0x0A] @ (indent @ gap)) partial
             @ [0x0A] @ indent @ js '']'')"
| "SerializeJSON gap indent (JObj kvs) =
     (if kvs = [] then js ''{}''
      else let partial =
             map (\<lambda>kv. QuoteJSONString (fst kv) @ js '':'' @ (if gap = [] then [] else js '' '')
                        @ SerializeJSON gap (indent @ gap) (snd kv)) kvs in
        if gap = [] then js ''{'' @ join (js '','') partial @ js ''}''
        else js ''{'' @ [0x0A] @ (indent @ gap)
             @ join (js '','' @ [0x0A] @ (indent @ gap)) partial
             @ [0x0A] @ indent @ js ''}'')"

text \<open>\<^verbatim>\<open>JSON.stringify(v)\<close> and \<^verbatim>\<open>JSON.stringify(v, null, 2)\<close>.\<close>

definition JSON_stringify :: "json \<Rightarrow> jstring" where
  "JSON_stringify v = SerializeJSON [] [] v"

definition JSON_stringify_2 :: "json \<Rightarrow> jstring" where
  "JSON_stringify_2 v = SerializeJSON (js ''  '') [] v"

section \<open>The backend adapter: \<^verbatim>\<open>class AttioClient\<close>\<close>

text \<open>
  The network is a parameter: \<open>fetch\<close> gives, for each outbound request, either the fault
  that \<^verbatim>\<open>fetch\<close> throws or the response. A response carries what \<^verbatim>\<open>response.text()\<close>
  and \<^verbatim>\<open>response.json()\<close> yield, each of which may throw. Every function that talks to
  the backend returns its result together with the outbound requests it issued, in
  order.
\<close>

record RequestInit =
  http_method :: jstring
  headers :: "(jstring \<times> jstring) list"
  body :: "jstring option"

record http_request = RequestInit +
  url :: jstring

record Response =
  ok :: bool
  status :: number
  statusText :: jstring
  text_body :: "error + jstring"
  json_body :: "error + json"

type_synonym fetch = "http_request \<Rightarrow> error + Response"

type_synonym 'a traced = "'a \<times> http_request list"

definition ATTIO_API_URL :: jstring where
  "ATTIO_API_URL = (js ''https://api.attio.com/v2'')"

record AttioClient =
  apiKey :: jstring
  baseUrl :: jstring

text \<open>\<^verbatim>\<open>new AttioClient(apiKey)\<close>, with the default base URL.\<close>

definition new_AttioClient :: "jstring \<Rightarrow> AttioClient" where
  "new_AttioClient key = \<lparr>apiKey = key, baseUrl = ATTIO_API_URL\<rparr>"

definition makeRequest :: "AttioClient \<Rightarrow> fetch \<Rightarrow> jstring \<Rightarrow> RequestInit \<Rightarrow> (error + json) traced" where
  "makeRequest this fetch endpoint options =
     (let rq = \<lparr>http_method = http_method options,
                headers = spread [(js ''Authorization'', js ''Bearer '' @ apiKey this),
                                  (js ''Content-Type'', js ''application/json'')] (headers options),
                body = body options,
                url = baseUrl this @ endpoint\<rparr>
      in (case fetch rq of
            Inl e \<Rightarrow> Inl e
          | Inr response \<Rightarrow>
              if \<not> ok response then
                (case text_body response of
                   Inl e \<Rightarrow> Inl e
                 | Inr errorText \<Rightarrow>
                     Inl (Error (js ''Attio API error: '' @ Number_toString (status response) @ js '' ''
                                 @ statusText response @ js '' - '' @ errorText)))
              else json_body response,
          [rq]))"

text \<open>The three record searches differ in the endpoint only.\<close>

definition query_records ::
  "AttioClient \<Rightarrow> fetch \<Rightarrow> jstring \<Rightarrow> (jstring \<times> json) list \<Rightarrow> number \<Rightarrow> (error + json) traced" where
  "query_records this fetch endpoint filters limit =
     (if length filters = 0 then
        makeRequest this fetch endpoint
          \<lparr>http_method = js ''POST'', headers = [],
           body = Some (JSON_stringify (JObj [(js ''limit'', JNum limit)]))\<rparr>
      else
        makeRequest this fetch endpoint
          \<lparr>http_method = js ''POST'', headers = [],
           body = Some (JSON_stringify (JObj [(js ''filter'', JObj filters), (js ''limit'', JNum limit)]))\<rparr>)"

definition searchPeople ::
  "AttioClient \<Rightarrow> fetch \<Rightarrow> (jstring \<times> json) list \<Rightarrow> number \<Rightarrow> (error + json) traced" where
  "searchPeople this fetch filters limit =
     query_records this fetch (js ''/objects/people/records/query'') filters limit"

definition searchCompanies ::
  "AttioClient \<Rightarrow> fetch \<Rightarrow> (jstring \<times> json) list \<Rightarrow> number \<Rightarrow> (error + json) traced" where
  "searchCompanies this fetch filters limit =
     query_records this fetch (js ''/objects/companies/records/query'') filters limit"

definition searchDeals ::
  "AttioClient \<Rightarrow> fetch \<Rightarrow> (jstring \<times> json) list \<Rightarrow> number \<Rightarrow> (error + json) traced" where
  "searchDeals this fetch filters limit =
     query_records this fetch (js ''/objects/deals/records/query'') filters limit"

subsection \<open>\<^verbatim>\<open>searchNotes\<close>\<close>

text \<open>The type guard on the listing: an object (or array) that has an array-valued
  \<^verbatim>\<open>data\<close> property is kept, anything else is replaced by \<^verbatim>\<open>{ data: [] }\<close>.\<close>

definition has_data_array :: "json \<Rightarrow> bool" where
  "has_data_array raw =
     (case raw of
        JObj kvs \<Rightarrow> (case map_of kvs (js ''data'') of Some (JArr xs) \<Rightarrow> True | _ \<Rightarrow> False)
      | _ \<Rightarrow> False)"

definition guard_notes :: "json \<Rightarrow> (jstring \<times> json) list" where
  "guard_notes raw =
     (case raw of
        JObj kvs \<Rightarrow> if has_data_array raw then kvs else [(js ''data'', JArr [])]
      | _ \<Rightarrow> [(js ''data'', JArr [])])"

definition data_of :: "(jstring \<times> json) list \<Rightarrow> json list" where
  "data_of allNotes = (case map_of allNotes (js ''data'') of Some (JArr xs) \<Rightarrow> xs | _ \<Rightarrow> [])"

text \<open>\<^verbatim>\<open>typeof v === 'string' && v.toLowerCase().includes(queryLower)\<close>\<close>

definition field_match :: "(jstring \<Rightarrow> jstring) \<Rightarrow> json option \<Rightarrow> jstring \<Rightarrow> bool" where
  "field_match toLowerCase v queryLower =
     (case v of Some (JStr s) \<Rightarrow> includes_str (toLowerCase s) queryLower | _ \<Rightarrow> False)"

text \<open>The callback of the filter; reading a property of a \<^verbatim>\<open>null\<close> element throws.\<close>

definition note_matches :: "(jstring \<Rightarrow> jstring) \<Rightarrow> jstring \<Rightarrow> json \<Rightarrow> error + bool" where
  "note_matches toLowerCase queryLower note =
     (case get_prop note (js ''title'') of
        Inl e \<Rightarrow> Inl e
      | Inr title \<Rightarrow>
          (let titleMatch = field_match toLowerCase title queryLower in
           case get_prop note (js ''content_plaintext'') of
             Inl e \<Rightarrow> Inl e
           | Inr content_plaintext \<Rightarrow>
               (let contentPlaintextMatch = field_match toLowerCase content_plaintext queryLower in
                case get_prop note (js ''content_markdown'') of
                  Inl e \<Rightarrow> Inl e
                | Inr content_markdown \<Rightarrow>
                    (let contentMarkdownMatch = field_match toLowerCase content_markdown queryLower in
                     Inr (titleMatch \<or> contentPlaintextMatch \<or> contentMarkdownMatch)))))"

text \<open>\<^verbatim>\<open>Array.prototype.filter\<close> with a callback that may throw: elements are visited
  in order and the first fault ends the loop.\<close>

fun Array_filter :: "('a \<Rightarrow> error + bool) \<Rightarrow> 'a list \<Rightarrow> error + 'a list" where
  "Array_filter p [] = Inr []"
| "Array_filter p (x # xs) =
     (case p x of
        Inl e \<Rightarrow> Inl e
      | Inr keep \<Rightarrow>
          (case Array_filter p xs of
             Inl e \<Rightarrow> Inl e
           | Inr ys \<Rightarrow> Inr (if keep then x # ys else ys)))"

definition searchNotes ::
  "(jstring \<Rightarrow> jstring) \<Rightarrow> AttioClient \<Rightarrow> fetch \<Rightarrow> jstring \<Rightarrow> number \<Rightarrow> (error + json) traced" where
  "searchNotes toLowerCase this fetch query limit =
     (case makeRequest this fetch (js ''/notes?limit='' @ Number_toString limit)
             \<lparr>http_method = js ''GET'', headers = [], body = None\<rparr> of
        (Inl e, log) \<Rightarrow> (Inl e, log)
      | (Inr allNotesRaw, log) \<Rightarrow>
          (let allNotes = guard_notes allNotesRaw in
           if query = [] \<or> trim query = [] then (Inr (JObj allNotes), log)
           else
             (let queryLower = toLowerCase query in
              case Array_filter (note_matches toLowerCase queryLower) (data_of allNotes) of
                Inl e \<Rightarrow> (Inl e, log)
              | Inr filteredNotes \<Rightarrow>
                  (Inr (JObj (set_prop allNotes (js ''data'') (JArr filteredNotes))), log))))"

text \<open>Following the words of the specification: the lower-cased query is a substring of
  the note's title, plaintext content or markdown content.\<close>

definition note_mentions :: "(jstring \<Rightarrow> jstring) \<Rightarrow> jstring \<Rightarrow> json \<Rightarrow> bool" where
  "note_mentions toLowerCase q note =
     (\<exists>k \<in> set [js ''title'', js ''content_plaintext'', js ''content_markdown''].
        case get_prop note k of
          Inr (Some (JStr s)) \<Rightarrow> includes_str (toLowerCase s) q
        | _ \<Rightarrow> False)"

subsection \<open>Creating and updating records\<close>

definition truthy :: "jstring option \<Rightarrow> bool" where
  "truthy s = (case s of None \<Rightarrow> False | Some t \<Rightarrow> t \<noteq> [])"

definition createNote ::
  "AttioClient \<Rightarrow> fetch \<Rightarrow> jstring \<Rightarrow> jstring \<Rightarrow> jstring \<Rightarrow> jstring \<Rightarrow> jstring option
     \<Rightarrow> (error + json) traced" where
  "createNote this fetch parent_object parent_record_id title content format =
     makeRequest this fetch (js ''/notes'')
       \<lparr>http_method = js ''POST'', headers = [],
        body = Some (JSON_stringify (JObj [(js ''data'', JObj
          [(js ''parent_object'', JStr parent_object),
           (js ''parent_record_id'', JStr parent_record_id),
           (js ''title'', JStr title),
           (js ''format'', JStr (if truthy format then the format else (js ''plaintext''))),
           (js ''content'', JStr content)])]))\<rparr>"

definition person_values ::
  "jstring option \<Rightarrow> json list option \<Rightarrow> json list option \<Rightarrow> jstring option \<Rightarrow> jstring option
     \<Rightarrow> (jstring \<times> json) list" where
  "person_values name email_addresses phone_numbers job_title description =
     (let recordData = [];
          recordData = (if truthy name then set_prop recordData (js ''name'') (JStr (the name))
                        else recordData);
          recordData = (case email_addresses of
                          Some xs \<Rightarrow> set_prop recordData (js ''email_addresses'') (JArr xs)
                        | None \<Rightarrow> recordData);
          recordData = (case phone_numbers of
                          Some xs \<Rightarrow> set_prop recordData (js ''phone_numbers'')
                            (JArr (map (\<lambda>phoneNumber. JObj [(js ''original_phone_number'', phoneNumber)]) xs))
                        | None \<Rightarrow> recordData);
          recordData = (if truthy job_title then set_prop recordData (js ''job_title'') (JStr (the job_title))
                        else recordData);
          recordData = (if truthy description
                        then set_prop recordData (js ''description'') (JStr (the description))
                        else recordData)
      in recordData)"

definition company_values ::
  "jstring option \<Rightarrow> json list option \<Rightarrow> jstring option \<Rightarrow> (jstring \<times> json) list" where
  "company_values name domains description =
     (let recordData = [];
          recordData = (if truthy name then set_prop recordData (js ''name'') (JStr (the name))
                        else recordData);
          recordData = (case domains of
                          Some xs \<Rightarrow> set_prop recordData (js ''domains'') (JArr xs)
                        | None \<Rightarrow> recordData);
          recordData = (if truthy description
                        then set_prop recordData (js ''description'') (JStr (the description))
                        else recordData)
      in recordData)"

definition values_body :: "(jstring \<times> json) list \<Rightarrow> jstring" where
  "values_body recordData =
     JSON_stringify (JObj [(js ''data'', JObj [(js ''values'', JObj recordData)])])"

definition createPerson ::
  "AttioClient \<Rightarrow> fetch \<Rightarrow> jstring option \<Rightarrow> json list option \<Rightarrow> json list option
     \<Rightarrow> jstring option \<Rightarrow> jstring option \<Rightarrow> (error + json) traced" where
  "createPerson this fetch name email_addresses phone_numbers job_title description =
     makeRequest this fetch (js ''/objects/people/records'')
       \<lparr>http_method = js ''POST'', headers = [],
        body = Some (values_body
                 (person_values name email_addresses phone_numbers job_title description))\<rparr>"

definition createCompany ::
  "AttioClient \<Rightarrow> fetch \<Rightarrow> jstring option \<Rightarrow> json list option \<Rightarrow> jstring option
     \<Rightarrow> (error + json) traced" where
  "createCompany this fetch name domains description =
     makeRequest this fetch (js ''/objects/companies/records'')
       \<lparr>http_method = js ''POST'', headers = [],
        body = Some (values_body (company_values name domains description))\<rparr>"

definition updatePerson ::
  "AttioClient \<Rightarrow> fetch \<Rightarrow> jstring \<Rightarrow> jstring option \<Rightarrow> json list option \<Rightarrow> json list option
     \<Rightarrow> jstring option \<Rightarrow> jstring option \<Rightarrow> (error + json) traced" where
  "updatePerson this fetch recordId name email_addresses phone_numbers job_title description =
     makeRequest this fetch (js ''/objects/people/records/'' @ recordId)
       \<lparr>http_method = js ''PATCH'', headers = [],
        body = Some (values_body
                 (person_values name email_addresses phone_numbers job_title description))\<rparr>"

definition updateCompany ::
  "AttioClient \<Rightarrow> fetch \<Rightarrow> jstring \<Rightarrow> jstring option \<Rightarrow> json list option \<Rightarrow> jstring option
     \<Rightarrow> (error + json) traced" where
  "updateCompany this fetch recordId name domains description =
     makeRequest this fetch (js ''/objects/companies/records/'' @ recordId)
       \<lparr>http_method = js ''PATCH'', headers = [],
        body = Some (values_body (company_values name domains description))\<rparr>"

section \<open>The tool registry\<close>

text \<open>
  A tool descriptor has a name, a description and an input schema. The one literal of the
  source that is not ASCII (in the description of \<^verbatim>\<open>stage\<close>) holds the four code units
  U+00F0, U+0178, U+017D and U+2030.
\<close>

record Tool =
  tool_name :: jstring
  description :: jstring
  inputSchema :: json

definition SEARCH_PEOPLE_TOOL :: Tool where
  "SEARCH_PEOPLE_TOOL =
     \<lparr>tool_name = js ''attio_search_people'',
      description =
        js ''Search for people in your Attio workspace with advanced filtering options. If no parameter other than limit is provided, it will search all people.'',
      inputSchema = JObj
          [(js ''type'', JStr (js ''object'')),
           (js ''properties'', JObj
             [(js ''query'', JObj
                [(js ''type'', JStr (js ''string'')),
                 (js ''description'', JStr (js ''Search query for people (searches across name, email, company, job title, description, etc.)''))]),
              (js ''email'', JObj
                [(js ''type'', JStr (js ''string'')),
                 (js ''description'', JStr (js ''Filter by email address''))]),
              (js ''limit'', JObj
                [(js ''type'', JStr (js ''number'')),
                 (js ''description'', JStr (js ''Maximum number of results to return (default: 25, max: 50)'')),
                 (js ''default'', JNum (Number (js ''25'')))])])]\<rparr>"

definition SEARCH_COMPANIES_TOOL :: Tool where
  "SEARCH_COMPANIES_TOOL =
     \<lparr>tool_name = js ''attio_search_companies'',
      description =
        js ''Search for companies in your Attio workspace with filtering and sorting. If no parameter other than limit is provided, it will search all companies.'',
      inputSchema = JObj
          [(js ''type'', JStr (js ''object'')),
           (js ''properties'', JObj
             [(js ''query'', JObj
                [(js ''type'', JStr (js ''string'')),
                 (js ''description'', JStr (js ''Search query for companies (searches across name, domain, description, employees names, employees descriptions, etc.)''))]),
              (js ''domain'', JObj
                [(js ''type'', JStr (js ''string'')),
                 (js ''description'', JStr (js ''Filter by company domain''))]),
              (js ''limit'', JObj
                [(js ''type'', JStr (js ''number'')),
                 (js ''description'', JStr (js ''Maximum number of results to return (default: 25, max: 50)'')),
                 (js ''default'', JNum (Number (js ''25'')))])])]\<rparr>"

definition SEARCH_DEALS_TOOL :: Tool where
  "SEARCH_DEALS_TOOL =
     \<lparr>tool_name = js ''attio_search_deals'',
      description =
        js ''Search for deals in your Attio workspace with stage and value filtering. If no parameter other than limit is provided, it will search all deals.'',
      inputSchema = JObj
          [(js ''type'', JStr (js ''object'')),
           (js ''properties'', JObj
             [(js ''name'', JObj
                [(js ''type'', JStr (js ''string'')),
                 (js ''description'', JStr (js ''Filter by deal name''))]),
              (js ''stage'', JObj
                [(js ''type'', JStr (js ''string'')),
                 (js ''description'', JStr (js ''Filter by deal stage (one of '' @ [0x22] @ js ''Lead'' @ [0x22] @ js '', '' @ [0x22] @ js ''In Progress'' @ [0x22] @ js '', '' @ [0x22] @ js ''Won '' @ [0xF0, 0x178, 0x17D, 0x2030, 0x22] @ js '', '' @ [0x22] @ js ''Lost'' @ [0x22] @ js '')''))]),
              (js ''minValue'', JObj
                [(js ''type'', JStr (js ''number'')),
                 (js ''description'', JStr (js ''Minimum deal value''))]),
              (js ''maxValue'', JObj
                [(js ''type'', JStr (js ''number'')),
                 (js ''description'', JStr (js ''Maximum deal value''))]),
              (js ''limit'', JObj
                [(js ''type'', JStr (js ''number'')),
                 (js ''description'', JStr (js ''Maximum number of results to return (default: 25, max: 50)'')),
                 (js ''default'', JNum (Number (js ''25'')))])])]\<rparr>"

definition SEARCH_NOTES_TOOL :: Tool where
  "SEARCH_NOTES_TOOL =
     \<lparr>tool_name = js ''attio_search_notes'',
      description =
        js ''Search for notes across all objects in your Attio workspace by fetching all notes and filtering by content.'',
      inputSchema = JObj
          [(js ''type'', JStr (js ''object'')),
           (js ''properties'', JObj
             [(js ''query'', JObj
                [(js ''type'', JStr (js ''string'')),
                 (js ''description'', JStr (js ''Search query for notes content (searches title, plaintext content, and markdown content). Leave empty to get all notes.''))]),
              (js ''limit'', JObj
                [(js ''type'', JStr (js ''number'')),
                 (js ''description'', JStr (js ''Maximum number of notes to fetch and search through (default: 50, max: 50)'')),
                 (js ''default'', JNum (Number (js ''50'')))])])]\<rparr>"

definition CREATE_NOTE_TOOL :: Tool where
  "CREATE_NOTE_TOOL =
     \<lparr>tool_name = js ''attio_create_note'',
      description =
        js ''Create a new note for a given record in Attio.'',
      inputSchema = JObj
          [(js ''type'', JStr (js ''object'')),
           (js ''properties'', JObj
             [(js ''parent_object'', JObj
                [(js ''type'', JStr (js ''string'')),
                 (js ''description'', JStr (js ''The object type to attach the note to (e.g., '' @ [0x22] @ js ''people'' @ [0x22] @ js '', '' @ [0x22] @ js ''companies'' @ [0x22] @ js '', '' @ [0x22] @ js ''deals'' @ [0x22] @ js '')'')),
                 (js ''enum'', JArr [JStr (js ''people''), JStr (js ''companies''), JStr (js ''deals'')])]),
              (js ''parent_record_id'', JObj
                [(js ''type'', JStr (js ''string'')),
                 (js ''description'', JStr (js ''The ID of the record to attach the note to''))]),
              (js ''title'', JObj
                [(js ''type'', JStr (js ''string'')),
                 (js ''description'', JStr (js ''Title of the note''))]),
              (js ''content'', JObj
                [(js ''type'', JStr (js ''string'')),
                 (js ''description'', JStr (js ''Content of the note''))]),
              (js ''format'', JObj
                [(js ''type'', JStr (js ''string'')),
                 (js ''description'', JStr (js ''Format of the note content'')),
                 (js ''enum'', JArr [JStr (js ''plaintext''), JStr (js ''markdown'')]),
                 (js ''default'', JStr (js ''plaintext''))])]),
           (js ''required'', JArr [JStr (js ''parent_object''), JStr (js ''parent_record_id''), JStr (js ''title''), JStr (js ''content'')])]\<rparr>"

definition CREATE_PERSON_TOOL :: Tool where
  "CREATE_PERSON_TOOL =
     \<lparr>tool_name = js ''attio_create_person'',
      description =
        js ''Create a new person record in your Attio workspace.'',
      inputSchema = JObj
          [(js ''type'', JStr (js ''object'')),
           (js ''properties'', JObj
             [(js ''name'', JObj
                [(js ''type'', JStr (js ''string'')),
                 (js ''description'', JStr (js ''Full name of the person''))]),
              (js ''email_addresses'', JObj
                [(js ''type'', JStr (js ''array'')),
                 (js ''items'', JObj
                   [(js ''type'', JStr (js ''string''))]),
                 (js ''description'', JStr (js ''Array of email addresses for the person''))]),
              (js ''phone_numbers'', JObj
                [(js ''type'', JStr (js ''array'')),
                 (js ''items'', JObj
                   [(js ''type'', JStr (js ''string''))]),
                 (js ''description'', JStr (js ''Array of phone numbers for the person''))]),
              (js ''job_title'', JObj
                [(js ''type'', JStr (js ''string'')),
                 (js ''description'', JStr (js ''Job title of the person''))]),
              (js ''description'', JObj
                [(js ''type'', JStr (js ''string'')),
                 (js ''description'', JStr (js ''Description or notes about the person''))])])]\<rparr>"

definition CREATE_COMPANY_TOOL :: Tool where
  "CREATE_COMPANY_TOOL =
     \<lparr>tool_name = js ''attio_create_company'',
      description =
        js ''Create a new company record in your Attio workspace.'',
      inputSchema = JObj
          [(js ''type'', JStr (js ''object'')),
           (js ''properties'', JObj
             [(js ''name'', JObj
                [(js ''type'', JStr (js ''string'')),
                 (js ''description'', JStr (js ''Name of the company''))]),
              (js ''domains'', JObj
                [(js ''type'', JStr (js ''array'')),
                 (js ''items'', JObj
                   [(js ''type'', JStr (js ''string''))]),
                 (js ''description'', JStr (js ''Array of domain names associated with the company''))]),
              (js ''description'', JObj
                [(js ''type'', JStr (js ''string'')),
                 (js ''description'', JStr (js ''Description of the company''))])])]\<rparr>"

definition UPDATE_PERSON_TOOL :: Tool where
  "UPDATE_PERSON_TOOL =
     \<lparr>tool_name = js ''attio_update_person'',
      description =
        js ''Update an existing person record in your Attio workspace.'',
      inputSchema = JObj
          [(js ''type'', JStr (js ''object'')),
           (js ''properties'', JObj
             [(js ''record_id'', JObj
                [(js ''type'', JStr (js ''string'')),
                 (js ''description'', JStr (js ''ID of the person record to update''))]),
              (js ''name'', JObj
                [(js ''type'', JStr (js ''string'')),
                 (js ''description'', JStr (js ''Full name of the person''))]),
              (js ''email_addresses'', JObj
                [(js ''type'', JStr (js ''array'')),
                 (js ''items'', JObj
                   [(js ''type'', JStr (js ''string''))]),
                 (js ''description'', JStr (js ''Array of email addresses for the person''))]),
              (js ''phone_numbers'', JObj
                [(js ''type'', JStr (js ''array'')),
                 (js ''items'', JObj
                   [(js ''type'', JStr (js ''string''))]),
                 (js ''description'', JStr (js ''Array of phone numbers for the person''))]),
              (js ''job_title'', JObj
                [(js ''type'', JStr (js ''string'')),
                 (js ''description'', JStr (js ''Job title of the person''))]),
              (js ''description'', JObj
                [(js ''type'', JStr (js ''string'')),
                 (js ''description'', JStr (js ''Description or notes about the person''))])]),
           (js ''required'', JArr [JStr (js ''record_id'')])]\<rparr>"

definition UPDATE_COMPANY_TOOL :: Tool where
  "UPDATE_COMPANY_TOOL =
     \<lparr>tool_name = js ''attio_update_company'',
      description =
        js ''Update an existing company record in your Attio workspace.'',
      inputSchema = JObj
          [(js ''type'', JStr (js ''object'')),
           (js ''properties'', JObj
             [(js ''record_id'', JObj
                [(js ''type'', JStr (js ''string'')),
                 (js ''description'', JStr (js ''ID of the company record to update''))]),
              (js ''name'', JObj
                [(js ''type'', JStr (js ''string'')),
                 (js ''description'', JStr (js ''Name of the company''))]),
              (js ''domains'', JObj
                [(js ''type'', JStr (js ''array'')),
                 (js ''items'', JObj
                   [(js ''type'', JStr (js ''string''))]),
                 (js ''description'', JStr (js ''Array of domain names associated with the company''))]),
              (js ''description'', JObj
                [(js ''type'', JStr (js ''string'')),
                 (js ''description'', JStr (js ''Description of the company''))])]),
           (js ''required'', JArr [JStr (js ''record_id'')])]\<rparr>"

text \<open>The handler of \<^verbatim>\<open>ListToolsRequestSchema\<close>: it takes nothing and reads nothing.\<close>

definition list_tools :: "Tool list" where
  "list_tools =
     [SEARCH_PEOPLE_TOOL, SEARCH_COMPANIES_TOOL, SEARCH_DEALS_TOOL, SEARCH_NOTES_TOOL,
      CREATE_NOTE_TOOL, CREATE_PERSON_TOOL, CREATE_COMPANY_TOOL, UPDATE_PERSON_TOOL,
      UPDATE_COMPANY_TOOL]"

section \<open>The request context store\<close>

text \<open>
  \<^verbatim>\<open>asyncLocalStorage.run(store, body)\<close> makes \<open>store\<close> the value that
  \<^verbatim>\<open>asyncLocalStorage.getStore()\<close> gives inside \<open>body\<close>, and outside every such scope
  \<^verbatim>\<open>getStore()\<close> gives \<^verbatim>\<open>undefined\<close>. The store is therefore an argument of the code
  that runs inside the scope: \<open>Some store\<close> inside \<^verbatim>\<open>run\<close>, \<open>None\<close> outside.
\<close>

record RequestContext =
  attioClient :: AttioClient

definition getAttioClient :: "RequestContext option \<Rightarrow> error + AttioClient" where
  "getAttioClient store =
     (case store of
        None \<Rightarrow> Inl (Error (js ''Attio client not found in AsyncLocalStorage''))
      | Some st \<Rightarrow> Inr (attioClient st))"

section \<open>The tool dispatcher: the handler of \<^verbatim>\<open>CallToolRequestSchema\<close>\<close>

datatype content_block = TextContent jstring

record ToolCallResult =
  content :: "content_block list"
  isError :: "bool option"


subsection \<open>Reading the arguments\<close>

text \<open>\<^verbatim>\<open>args?.k\<close>\<close>

definition arg :: "(jstring \<times> json) list option \<Rightarrow> jstring \<Rightarrow> json option" where
  "arg args k = (case args of None \<Rightarrow> None | Some kvs \<Rightarrow> map_of kvs k)"

text \<open>\<^verbatim>\<open>typeof args?.k === 'string' ? args.k : undefined\<close>\<close>

definition str_arg :: "(jstring \<times> json) list option \<Rightarrow> jstring \<Rightarrow> jstring option" where
  "str_arg args k = (case arg args k of Some (JStr s) \<Rightarrow> Some s | _ \<Rightarrow> None)"

text \<open>\<^verbatim>\<open>typeof args?.k === 'string' ? args.k : d\<close>\<close>

definition str_arg_or :: "(jstring \<times> json) list option \<Rightarrow> jstring \<Rightarrow> jstring \<Rightarrow> jstring" where
  "str_arg_or args k d = (case arg args k of Some (JStr s) \<Rightarrow> s | _ \<Rightarrow> d)"

text \<open>\<^verbatim>\<open>typeof args?.k === 'number' ? args.k : d\<close>\<close>

definition num_arg_or :: "(jstring \<times> json) list option \<Rightarrow> jstring \<Rightarrow> number \<Rightarrow> number" where
  "num_arg_or args k d = (case arg args k of Some (JNum n) \<Rightarrow> n | _ \<Rightarrow> d)"

text \<open>\<^verbatim>\<open>Array.isArray(args?.k) ? args.k : undefined\<close>\<close>

definition arr_arg :: "(jstring \<times> json) list option \<Rightarrow> jstring \<Rightarrow> json list option" where
  "arr_arg args k = (case arg args k of Some (JArr xs) \<Rightarrow> Some xs | _ \<Rightarrow> None)"

subsection \<open>The filters of the record searches\<close>

definition contains :: "json \<Rightarrow> json" where
  "contains q = JObj [(js ''$contains'', q)]"

definition path_constraint :: "jstring \<Rightarrow> jstring \<Rightarrow> jstring \<Rightarrow> jstring \<Rightarrow> json \<Rightarrow> json" where
  "path_constraint a b c d q =
     JObj [(js ''path'', JArr [JArr [JStr a, JStr b], JArr [JStr c, JStr d]]),
           (js ''constraints'', contains q)]"

definition people_filters :: "(jstring \<times> json) list option \<Rightarrow> (jstring \<times> json) list" where
  "people_filters args =
     (let filters = [];
          filters = (case arg args (js ''query'') of
                       Some (JStr q) \<Rightarrow>
                         set_prop filters (js ''$or'') (JArr
                           [JObj [(js ''name'', contains (JStr q))],
                            JObj [(js ''email_addresses'', contains (JStr q))],
                            JObj [(js ''description'', contains (JStr q))],
                            JObj [(js ''job_title'', contains (JStr q))],
                            path_constraint (js ''people'') (js ''company'') (js ''companies'') (js ''name'') (JStr q),
                            path_constraint (js ''people'') (js ''company'') (js ''companies'') (js ''description'') (JStr q),
                            JObj [(js ''primary_location'', JObj [(js ''locality'', contains (JStr q))])]])
                     | _ \<Rightarrow> filters);
          filters = (case arg args (js ''email'') of
                       Some (JStr e) \<Rightarrow> set_prop filters (js ''email_addresses'') (JStr e)
                     | _ \<Rightarrow> filters)
      in filters)"

definition companies_filters :: "(jstring \<times> json) list option \<Rightarrow> (jstring \<times> json) list" where
  "companies_filters args =
     (let filters = [];
          filters = (case arg args (js ''query'') of
                       Some (JStr q) \<Rightarrow>
                         set_prop filters (js ''$or'') (JArr
                           [JObj [(js ''name'', contains (JStr q))],
                            JObj [(js ''domains'', JObj [(js ''domain'', contains (JStr q))])],
                            JObj [(js ''description'', contains (JStr q))],
                            JObj [(js ''primary_location'', JObj [(js ''locality'', contains (JStr q))])],
                            path_constraint (js ''companies'') (js ''team'') (js ''people'') (js ''name'') (JStr q),
                            path_constraint (js ''companies'') (js ''team'') (js ''people'') (js ''description'') (JStr q)])
                     | _ \<Rightarrow> filters);
          filters = (case arg args (js ''domain'') of
                       Some (JStr d) \<Rightarrow> set_prop filters (js ''domains'') (JObj [(js ''domain'', JStr d)])
                     | _ \<Rightarrow> filters)
      in filters)"

definition is_number :: "json option \<Rightarrow> bool" where
  "is_number v = (case v of Some (JNum n) \<Rightarrow> True | _ \<Rightarrow> False)"

definition deals_filters :: "(jstring \<times> json) list option \<Rightarrow> (jstring \<times> json) list" where
  "deals_filters args =
     (let filters = [];
          filters = (case arg args (js ''name'') of
                       Some (JStr n) \<Rightarrow> set_prop filters (js ''name'') (contains (JStr n))
                     | _ \<Rightarrow> filters);
          filters = (case arg args (js ''stage'') of
                       Some (JStr s) \<Rightarrow> set_prop filters (js ''stage'') (JStr s)
                     | _ \<Rightarrow> filters);
          filters = (if is_number (arg args (js ''minValue'')) \<or> is_number (arg args (js ''maxValue'')) then
                       (let v = [];
                            v = (case arg args (js ''minValue'') of
                                   Some (JNum n) \<Rightarrow> set_prop v (js ''$gte'') (JNum n) | _ \<Rightarrow> v);
                            v = (case arg args (js ''maxValue'') of
                                   Some (JNum n) \<Rightarrow> set_prop v (js ''$lte'') (JNum n) | _ \<Rightarrow> v)
                        in set_prop filters (js ''value'') (JObj v))
                     else filters)
      in filters)"

subsection \<open>The handler\<close>

text \<open>What every case of the switch does with the adapter's answer:
  \<^verbatim>\<open>return { content: [{ type: 'text', text: JSON.stringify(result, null, 2) }] }\<close>,
  a fault of the adapter going on to the \<^verbatim>\<open>catch\<close>.\<close>

definition return_content :: "(error + json) traced \<Rightarrow> (error + ToolCallResult) traced" where
  "return_content r =
     (case r of
        (Inl e, log) \<Rightarrow> (Inl e, log)
      | (Inr result, log) \<Rightarrow>
          (Inr \<lparr>content = [TextContent (JSON_stringify_2 result)], isError = None\<rparr>, log))"

text \<open>Every case starts with \<^verbatim>\<open>const client = getAttioClient()\<close>.\<close>

definition with_client ::
  "RequestContext option \<Rightarrow> (AttioClient \<Rightarrow> (error + json) traced) \<Rightarrow> (error + ToolCallResult) traced" where
  "with_client store f =
     (case getAttioClient store of
        Inl e \<Rightarrow> (Inl e, [])
      | Inr client \<Rightarrow> return_content (f client))"

text \<open>The switch on the tool name: the adapter method of each case, applied to the
  coerced arguments; \<open>None\<close> is the \<^verbatim>\<open>default\<close> case.\<close>

definition adapter_call ::
  "(jstring \<Rightarrow> jstring) \<Rightarrow> jstring \<Rightarrow> (jstring \<times> json) list option
     \<Rightarrow> (AttioClient \<Rightarrow> fetch \<Rightarrow> (error + json) traced) option" where
  "adapter_call toLowerCase name args =
     (if name = js ''attio_search_people'' then
        Some (\<lambda>client fetch.
          searchPeople client fetch (people_filters args) (num_arg_or args (js ''limit'') (Number (js ''25''))))
      else if name = js ''attio_search_companies'' then
        Some (\<lambda>client fetch.
          searchCompanies client fetch (companies_filters args) (num_arg_or args (js ''limit'') (Number (js ''25''))))
      else if name = js ''attio_search_deals'' then
        Some (\<lambda>client fetch.
          searchDeals client fetch (deals_filters args) (num_arg_or args (js ''limit'') (Number (js ''25''))))
      else if name = js ''attio_search_notes'' then
        Some (\<lambda>client fetch.
          searchNotes toLowerCase client fetch (str_arg_or args (js ''query'') []) (num_arg_or args (js ''limit'') (Number (js ''50''))))
      else if name = js ''attio_create_note'' then
        Some (\<lambda>client fetch.
          createNote client fetch
            (str_arg_or args (js ''parent_object'') [])
            (str_arg_or args (js ''parent_record_id'') [])
            (str_arg_or args (js ''title'') [])
            (str_arg_or args (js ''content'') [])
            (Some (str_arg_or args (js ''format'') (js ''plaintext''))))
      else if name = js ''attio_create_person'' then
        Some (\<lambda>client fetch.
          createPerson client fetch
            (str_arg args (js ''name''))
            (arr_arg args (js ''email_addresses''))
            (arr_arg args (js ''phone_numbers''))
            (str_arg args (js ''job_title''))
            (str_arg args (js ''description'')))
      else if name = js ''attio_create_company'' then
        Some (\<lambda>client fetch.
          createCompany client fetch
            (str_arg args (js ''name''))
            (arr_arg args (js ''domains''))
            (str_arg args (js ''description'')))
      else if name = js ''attio_update_person'' then
        Some (\<lambda>client fetch.
          updatePerson client fetch
            (str_arg_or args (js ''record_id'') [])
            (str_arg args (js ''name''))
            (arr_arg args (js ''email_addresses''))
            (arr_arg args (js ''phone_numbers''))
            (str_arg args (js ''job_title''))
            (str_arg args (js ''description'')))
      else if name = js ''attio_update_company'' then
        Some (\<lambda>client fetch.
          updateCompany client fetch
            (str_arg_or args (js ''record_id'') [])
            (str_arg args (js ''name''))
            (arr_arg args (js ''domains''))
            (str_arg args (js ''description'')))
      else None)"

text \<open>The body of the \<^verbatim>\<open>try\<close>: a known tool obtains the client, calls the adapter
  and wraps the answer; the \<^verbatim>\<open>default\<close> case throws.\<close>

definition try_switch ::
  "(jstring \<Rightarrow> jstring) \<Rightarrow> RequestContext option \<Rightarrow> fetch \<Rightarrow> jstring \<Rightarrow> (jstring \<times> json) list option
     \<Rightarrow> (error + ToolCallResult) traced" where
  "try_switch toLowerCase store fetch name args =
     (case adapter_call toLowerCase name args of
        Some f \<Rightarrow> with_client store (\<lambda>client. f client fetch)
      | None \<Rightarrow> (Inl (Error (js ''Unknown tool: '' @ name)), []))"

text \<open>The handler: the \<^verbatim>\<open>try\<close> and its \<^verbatim>\<open>catch\<close> (\<^verbatim>\<open>safeLog\<close> does nothing).\<close>

definition call_tool ::
  "(jstring \<Rightarrow> jstring) \<Rightarrow> RequestContext option \<Rightarrow> fetch \<Rightarrow> jstring \<Rightarrow> (jstring \<times> json) list option
     \<Rightarrow> ToolCallResult traced" where
  "call_tool toLowerCase store fetch name args =
     (case try_switch toLowerCase store fetch name args of
        (Inr r, log) \<Rightarrow> (r, log)
      | (Inl err, log) \<Rightarrow>
          (\<lparr>content = [TextContent (js ''Error: '' @ message err)], isError = Some True\<rparr>, log))"

section \<open>The transport layer\<close>

text \<open>
  Modelled from the spec: the protocol engine (the SDK's \<^verbatim>\<open>Server\<close> and its two
  transports) is a library and not part of the sources. Of its behaviour only the
  routing is used: a list-tools message goes to the handler of
  \<^verbatim>\<open>ListToolsRequestSchema\<close>, a call-tool message goes to the handler of
  \<^verbatim>\<open>CallToolRequestSchema\<close>, whatever the handler returns is sent back as the protocol
  response, and any other message is answered by the engine itself.
\<close>

datatype mcp_message =
    ToolsList
  | ToolsCall jstring "(jstring \<times> json) list option"
  | OtherMessage

datatype engine_result =
    ListToolsResult "Tool list"
  | CallToolResult ToolCallResult
  | EngineResult

definition handle_message ::
  "(jstring \<Rightarrow> jstring) \<Rightarrow> RequestContext option \<Rightarrow> fetch \<Rightarrow> mcp_message \<Rightarrow> engine_result traced" where
  "handle_message toLowerCase store fetch msg =
     (case msg of
        ToolsList \<Rightarrow> (ListToolsResult list_tools, [])
      | ToolsCall name args \<Rightarrow>
          (case call_tool toLowerCase store fetch name args of (r, log) \<Rightarrow> (CallToolResult r, log))
      | OtherMessage \<Rightarrow> (EngineResult, []))"

text \<open>An inbound request: the \<^verbatim>\<open>x-auth-token\<close> header, the \<^verbatim>\<open>sessionId\<close> query
  parameter (\<open>None\<close> when it is absent or is not one string, in which case it is the key
  of no session) and the protocol message of the body.\<close>

record Request =
  x_auth_token :: "jstring option"
  query_sessionId :: "jstring option"
  req_body :: mcp_message

text \<open>What came of a request: the HTTP answer written by the route (or the protocol
  response written by the engine), the store with which \<^verbatim>\<open>asyncLocalStorage.run\<close> was
  entered (\<open>None\<close> when it was not), and the outbound requests issued.\<close>

datatype http_response =
    NoResponse
  | JsonResponse nat json
  | ProtocolResponse engine_result

record outcome =
  response :: http_response
  run_store :: "RequestContext option"
  outbound :: "http_request list"

text \<open>\<^verbatim>\<open>process.env.ATTIO_API_KEY || req.headers['x-auth-token']\<close>\<close>

definition credential :: "jstring option \<Rightarrow> Request \<Rightarrow> jstring option" where
  "credential env req = (if truthy env then env else x_auth_token req)"

text \<open>\<^verbatim>\<open>asyncLocalStorage.run({ attioClient }, ...)\<close> around the engine.\<close>

definition run_in_store ::
  "(jstring \<Rightarrow> jstring) \<Rightarrow> AttioClient \<Rightarrow> fetch \<Rightarrow> mcp_message \<Rightarrow> outcome" where
  "run_in_store toLowerCase client fetch msg =
     (let store = \<lparr>attioClient = client\<rparr> in
      case handle_message toLowerCase (Some store) fetch msg of
        (r, log) \<Rightarrow> \<lparr>response = ProtocolResponse r, run_store = Some store, outbound = log\<rparr>)"

definition internal_server_error :: json where
  "internal_server_error =
     JObj [(js ''jsonrpc'', JStr (js ''2.0'')),
           (js ''error'', JObj [(js ''code'', JNum (Number (js ''-32603''))), (js ''message'', JStr (js ''Internal server error''))]),
           (js ''id'', JNull)]"

text \<open>
  \<^verbatim>\<open>app.post('/mcp')\<close>. \<open>connect\<close> is the fault, if any, with which creating the
  transport or \<^verbatim>\<open>server.connect\<close> fails; nothing has been sent at that point.
\<close>

definition post_mcp ::
  "(jstring \<Rightarrow> jstring) \<Rightarrow> jstring option \<Rightarrow> error option \<Rightarrow> fetch \<Rightarrow> Request \<Rightarrow> outcome" where
  "post_mcp toLowerCase env connect fetch req =
     (let apiKey = credential env req in
      if \<not> truthy apiKey then \<lparr>response = NoResponse, run_store = None, outbound = []\<rparr>
      else
        (let client = new_AttioClient (the apiKey) in
         case connect of
           Some e \<Rightarrow>
             \<lparr>response = JsonResponse 500 internal_server_error, run_store = None, outbound = []\<rparr>
         | None \<Rightarrow> run_in_store toLowerCase client fetch (req_body req)))"

definition method_not_allowed :: http_response where
  "method_not_allowed =
     JsonResponse 405
       (JObj [(js ''jsonrpc'', JStr (js ''2.0'')),
              (js ''error'', JObj [(js ''code'', JNum (Number (js ''-32000''))), (js ''message'', JStr (js ''Method not allowed.''))]),
              (js ''id'', JNull)])"

subsection \<open>The deprecated event-stream transport\<close>

record SSEServerTransport =
  endpoint :: jstring
  sessionId :: jstring

text \<open>The process-wide \<^verbatim>\<open>transports\<close> map is the whole state of the server.\<close>

record server_state =
  transports :: "jstring \<rightharpoonup> SSEServerTransport"

text \<open>\<^verbatim>\<open>app.get('/sse')\<close>; \<open>sid\<close> is the identifier the new transport gave itself.\<close>

definition get_sse :: "jstring \<Rightarrow> server_state \<Rightarrow> server_state" where
  "get_sse sid st =
     st\<lparr>transports := (transports st)(sid \<mapsto> \<lparr>endpoint = js ''/messages'', sessionId = sid\<rparr>)\<rparr>"

text \<open>The \<^verbatim>\<open>close\<close> callback registered by \<^verbatim>\<open>app.get('/sse')\<close>:
  \<^verbatim>\<open>transports.delete(transport.sessionId)\<close>.\<close>

definition on_close :: "jstring \<Rightarrow> server_state \<Rightarrow> server_state" where
  "on_close sid st = st\<lparr>transports := (transports st)(sid := None)\<rparr>"

text \<open>\<^verbatim>\<open>transports.get(sessionId)\<close>, where the query parameter may be absent.\<close>

definition transports_get :: "server_state \<Rightarrow> jstring option \<Rightarrow> SSEServerTransport option" where
  "transports_get st sid = (case sid of None \<Rightarrow> None | Some i \<Rightarrow> transports st i)"

definition transport_not_found :: http_response where
  "transport_not_found = JsonResponse 404 (JObj [(js ''error'', JStr (js ''Transport not found''))])"

text \<open>\<^verbatim>\<open>app.post('/messages')\<close>; it leaves the state as it is.\<close>

definition post_messages ::
  "(jstring \<Rightarrow> jstring) \<Rightarrow> jstring option \<Rightarrow> server_state \<Rightarrow> fetch \<Rightarrow> Request \<Rightarrow> outcome" where
  "post_messages toLowerCase env st fetch req =
     (case transports_get st (query_sessionId req) of
        Some transport \<Rightarrow>
          (let apiKey = credential env req in
           if \<not> truthy apiKey then \<lparr>response = NoResponse, run_store = None, outbound = []\<rparr>
           else
             (let client = new_AttioClient (the apiKey) in
              run_in_store toLowerCase client fetch (req_body req)))
      | None \<Rightarrow> \<lparr>response = transport_not_found, run_store = None, outbound = []\<rparr>)"

section \<open>Example inputs\<close>

text \<open>\<^verbatim>\<open>String.prototype.toLowerCase\<close> as it acts on a string of Basic Latin; the examples
  lower-case no other string.\<close>

definition toLowerCase_ascii :: "jstring \<Rightarrow> jstring" where
  "toLowerCase_ascii s = map (\<lambda>c. if 0x41 \<le> c \<and> c \<le> 0x5A then c + 0x20 else c) s"

text \<open>The double quote and the line feed, to spell out serialised texts.\<close>

definition dq :: jstring where
  "dq = [0x22]"


text \<open>A backend that rejects the credential: every request is answered 401.\<close>

definition fetch_401 :: fetch where
  "fetch_401 rq =
     Inr \<lparr>ok = False, status = Number (js ''401''), statusText = js ''Unauthorized'',
          text_body = Inr (js ''bad key''), json_body = Inl (SyntaxError (js ''Unexpected token''))\<rparr>"

text \<open>A backend whose listing holds three notes; only the second one mentions the
  needle, in its markdown body.\<close>

definition three_notes :: json where
  "three_notes =
     JObj [(js ''data'', JArr
             [JObj [(js ''id'', JNum (Number (js ''1''))), (js ''title'', JStr (js ''Alpha''))],
              JObj [(js ''id'', JNum (Number (js ''2''))), (js ''title'', JStr (js ''Beta'')),
                    (js ''content_markdown'', JStr (js ''a NEEDLE here''))],
              JObj [(js ''id'', JNum (Number (js ''3''))), (js ''title'', JNum (Number (js ''7'')))]]),
           (js ''next'', JNull)]"

definition fetch_notes :: fetch where
  "fetch_notes rq =
     Inr \<lparr>ok = True, status = Number (js ''200''), statusText = js ''OK'',
          text_body = Inr [], json_body = Inr three_notes\<rparr>"




text \<open>No session is registered.\<close>

definition state0 :: server_state where
  "state0 = \<lparr>transports = Map.empty\<rparr>"

text \<open>A call of \<^verbatim>\<open>attio_create_person\<close>, posted with the credential \<^verbatim>\<open>k1\<close> in the
  header and the session identifier \<^verbatim>\<open>s1\<close>.\<close>

definition person_args :: "(jstring \<times> json) list option" where
  "person_args =
     Some [(js ''name'', JStr (js ''Ann'')), (js ''phone_numbers'', JArr [JStr (js ''555'')])]"

definition req_create_person :: Request where
  "req_create_person =
     \<lparr>x_auth_token = Some (js ''k1''), query_sessionId = Some (js ''s1''),
      req_body = ToolsCall (js ''attio_create_person'') person_args\<rparr>"

text \<open>The same call without a credential.\<close>

definition req_no_credential :: Request where
  "req_no_credential =
     \<lparr>x_auth_token = None, query_sessionId = Some (js ''s1''),
      req_body = ToolsCall (js ''attio_create_person'') person_args\<rparr>"

text \<open>The same call on the same session with another credential.\<close>

definition req_other_key :: Request where
  "req_other_key =
     \<lparr>x_auth_token = Some (js ''k2''), query_sessionId = Some (js ''s1''),
      req_body = ToolsCall (js ''attio_create_person'') person_args\<rparr>"

text \<open>Arguments that give a limit and nothing else; the limit is above the maximum that
  the descriptions of the tools name.\<close>

definition limit_args :: "(jstring \<times> json) list option" where
  "limit_args = Some [(js ''limit'', JNum (Number (js ''1e+21'')))]"

text \<open>Arguments that give a filter and no limit.\<close>

definition email_args :: "(jstring \<times> json) list option" where
  "email_args = Some [(js ''email'', JStr (js ''a@b.c''))]"

text \<open>A listing with a \<^verbatim>\<open>null\<close> element, an answer that is no listing, and a listing
  with a \<^verbatim>\<open>null\<close> element before a note that mentions the needle.\<close>

definition fetch_null_note :: fetch where
  "fetch_null_note rq =
     Inr \<lparr>ok = True, status = Number (js ''200''), statusText = js ''OK'',
          text_body = Inr [], json_body = Inr (JObj [(js ''data'', JArr [JNull])])\<rparr>"

definition fetch_not_listing :: fetch where
  "fetch_not_listing rq =
     Inr \<lparr>ok = True, status = Number (js ''200''), statusText = js ''OK'',
          text_body = Inr [], json_body = Inr (JObj [(js ''data'', JStr (js ''none''))])\<rparr>"

definition fetch_null_then_match :: fetch where
  "fetch_null_then_match rq =
     Inr \<lparr>ok = True, status = Number (js ''200''), statusText = js ''OK'',
          text_body = Inr [],
          json_body = Inr (JObj [(js ''data'', JArr
                        [JNull, JObj [(js ''title'', JStr (js ''the needle''))]])])\<rparr>"

section \<open>Literals\<close>

lemma js_eq_iff [simp]: "js a = js b \<longleftrightarrow> a = b"
  by (simp add: js_def inj_map_eq_map inj_def)

lemma js_Nil [simp]: "js [] = []"
  by (simp add: js_def)

lemma js_eq_Nil [simp]: "js s = [] \<longleftrightarrow> s = []"
  by (simp add: js_def)

lemma js_append: "js a @ js b = js (a @ b)"
  by (simp add: js_def)

lemma js_append_left: "js a @ js b @ c = js (a @ b) @ c"
  by (simp add: js_def)

section \<open>Properties of the dispatcher\<close>

lemmas tool_defs =
  SEARCH_PEOPLE_TOOL_def SEARCH_COMPANIES_TOOL_def SEARCH_DEALS_TOOL_def
  SEARCH_NOTES_TOOL_def CREATE_NOTE_TOOL_def CREATE_PERSON_TOOL_def CREATE_COMPANY_TOOL_def
  UPDATE_PERSON_TOOL_def UPDATE_COMPANY_TOOL_def

lemma tool_names:
  "map tool_name list_tools =
     [js ''attio_search_people'', js ''attio_search_companies'', js ''attio_search_deals'',
      js ''attio_search_notes'', js ''attio_create_note'', js ''attio_create_person'',
      js ''attio_create_company'', js ''attio_update_person'', js ''attio_update_company'']"
  by (simp add: list_tools_def tool_defs)

text \<open>The switch has a case for exactly the names of the registry.\<close>

lemma adapter_call_None_iff:
  "adapter_call toLowerCase name args = None \<longleftrightarrow> name \<notin> set (map tool_name list_tools)"
  unfolding tool_names by (simp add: adapter_call_def)

text \<open>What the handler returns for a known tool, inside a request context.\<close>

lemma call_tool_known:
  assumes "adapter_call toLowerCase name args = Some f"
  shows "call_tool toLowerCase (Some \<lparr>attioClient = client\<rparr>) fetch name args =
           (case f client fetch of
              (Inl e, log) \<Rightarrow>
                (\<lparr>content = [TextContent (js ''Error: '' @ message e)], isError = Some True\<rparr>, log)
            | (Inr result, log) \<Rightarrow>
                (\<lparr>content = [TextContent (JSON_stringify_2 result)], isError = None\<rparr>, log))"
  using assms
  by (simp add: call_tool_def try_switch_def with_client_def getAttioClient_def
      return_content_def split: prod.splits sum.splits)


text \<open>
  C2, as the code has it. For a tool name that is not in the registry the handler returns
  an error result and issues no outbound request; it has no other outcome. The text of
  the single content block is \<^verbatim>\<open>Error: Unknown tool: <name>\<close>: the \<^verbatim>\<open>default\<close> case
  throws \<^verbatim>\<open>Unknown tool: <name>\<close> and the \<^verbatim>\<open>catch\<close> puts \<^verbatim>\<open>Error: \<close> in front of
  every message.
\<close>

theorem unknown_tool_error_result:
  assumes "name \<notin> set (map tool_name list_tools)"
  shows "call_tool toLowerCase store fetch name args =
           (\<lparr>content = [TextContent (js ''Error: Unknown tool: '' @ name)], isError = Some True\<rparr>, [])"
proof -
  from assms have "adapter_call toLowerCase name args = None"
    using adapter_call_None_iff [of toLowerCase name args] by blast
  then show ?thesis
    by (simp add: call_tool_def try_switch_def js_append js_append_left)
qed

theorem unknown_tool_error_result_witness:
  "js ''nope'' \<notin> set (map tool_name list_tools) \<and>
   call_tool toLowerCase_ascii None fetch_401 (js ''nope'') None =
     (\<lparr>content = [TextContent (js ''Error: Unknown tool: nope'')], isError = Some True\<rparr>, [])"
  using unknown_tool_error_result
    [where name = "js ''nope''" and toLowerCase = toLowerCase_ascii and store = None
       and fetch = fetch_401 and args = None]
  by (simp add: tool_names js_append)

text \<open>
  C2, as the claim words it, fails: for the unregistered name \<^verbatim>\<open>nope\<close> the result is
  not the error result whose text is \<^verbatim>\<open>Unknown tool: nope\<close>.
\<close>

theorem unknown_tool_text_counterexample:
  "fst (call_tool toLowerCase_ascii None fetch_401 (js ''nope'') None)
     \<noteq> \<lparr>content = [TextContent (js ''Unknown tool: nope'')], isError = Some True\<rparr>"
  by (simp add: call_tool_def try_switch_def adapter_call_def js_append)



text \<open>How the two routes reach the handler once a credential is present.\<close>

lemma run_in_store_call:
  "run_in_store toLowerCase client fetch (ToolsCall name args) =
     \<lparr>response = ProtocolResponse (CallToolResult
        (fst (call_tool toLowerCase (Some \<lparr>attioClient = client\<rparr>) fetch name args))),
      run_store = Some \<lparr>attioClient = client\<rparr>,
      outbound = snd (call_tool toLowerCase (Some \<lparr>attioClient = client\<rparr>) fetch name args)\<rparr>"
  by (cases "call_tool toLowerCase (Some \<lparr>attioClient = client\<rparr>) fetch name args")
    (simp add: run_in_store_def handle_message_def Let_def)

lemma post_mcp_run:
  assumes "credential env req = Some key" and "key \<noteq> []"
  shows "post_mcp toLowerCase env None fetch req =
           run_in_store toLowerCase (new_AttioClient key) fetch (req_body req)"
  using assms by (simp add: post_mcp_def truthy_def)

lemma post_messages_run:
  assumes "credential env req = Some key" and "key \<noteq> []"
      and "transports_get st (query_sessionId req) \<noteq> None"
  shows "post_messages toLowerCase env st fetch req =
           run_in_store toLowerCase (new_AttioClient key) fetch (req_body req)"
  using assms by (auto simp add: post_messages_def truthy_def)

text \<open>
  C3. If the adapter method of a registered tool raises a fault, the handler returns an
  error result whose content is the single text block \<^verbatim>\<open>Error: <message>\<close>. On both
  routes the answer to the request is then this result, sent as the protocol response:
  it is not the internal-error answer of the route, and the route raises nothing.
\<close>

theorem adapter_fault_contained:
  assumes "adapter_call toLowerCase name args = Some f"
      and "fst (f client fetch) = Inl e"
  shows "fst (call_tool toLowerCase (Some \<lparr>attioClient = client\<rparr>) fetch name args) =
           \<lparr>content = [TextContent (js ''Error: '' @ message e)], isError = Some True\<rparr>
         \<and> (client = new_AttioClient key \<and> credential env req = Some key \<and> key \<noteq> []
              \<and> req_body req = ToolsCall name args \<longrightarrow>
            response (post_mcp toLowerCase env None fetch req) =
              ProtocolResponse (CallToolResult
                \<lparr>content = [TextContent (js ''Error: '' @ message e)], isError = Some True\<rparr>)
            \<and> (transports_get st (query_sessionId req) \<noteq> None \<longrightarrow>
               response (post_messages toLowerCase env st fetch req) =
                 ProtocolResponse (CallToolResult
                   \<lparr>content = [TextContent (js ''Error: '' @ message e)], isError = Some True\<rparr>)))"
proof -
  have c: "fst (call_tool toLowerCase (Some \<lparr>attioClient = client\<rparr>) fetch name args) =
           \<lparr>content = [TextContent (js ''Error: '' @ message e)], isError = Some True\<rparr>"
    using assms(2)
    by (cases "f client fetch") (simp add: call_tool_known [OF assms(1)])
  show ?thesis
    using c by (auto simp add: post_mcp_run post_messages_run run_in_store_call)
qed

theorem adapter_fault_contained_witness:
  "fst (createPerson (new_AttioClient (js ''k1'')) fetch_401 (Some (js ''Ann'')) None
          (Some [JStr (js ''555'')]) None None)
       = Inl (Error (js ''Attio API error: 401 Unauthorized - bad key''))
   \<and> credential None req_create_person = Some (js ''k1'')
   \<and> req_body req_create_person = ToolsCall (js ''attio_create_person'') person_args
   \<and> transports_get (get_sse (js ''s1'') state0) (query_sessionId req_create_person) \<noteq> None
   \<and> fst (call_tool toLowerCase_ascii (Some \<lparr>attioClient = new_AttioClient (js ''k1'')\<rparr>)
            fetch_401 (js ''attio_create_person'') person_args) =
       \<lparr>content = [TextContent (js ''Error: Attio API error: 401 Unauthorized - bad key'')],
        isError = Some True\<rparr>
   \<and> response (post_mcp toLowerCase_ascii None None fetch_401 req_create_person) =
       ProtocolResponse (CallToolResult
         \<lparr>content = [TextContent (js ''Error: Attio API error: 401 Unauthorized - bad key'')],
          isError = Some True\<rparr>)
   \<and> response (post_messages toLowerCase_ascii None (get_sse (js ''s1'') state0) fetch_401
         req_create_person) =
       ProtocolResponse (CallToolResult
         \<lparr>content = [TextContent (js ''Error: Attio API error: 401 Unauthorized - bad key'')],
          isError = Some True\<rparr>)"
proof -
  have h1: "adapter_call toLowerCase_ascii (js ''attio_create_person'') person_args =
     Some (\<lambda>client fetch. createPerson client fetch (Some (js ''Ann'')) None
             (Some [JStr (js ''555'')]) None None)"
    by (simp add: adapter_call_def person_args_def str_arg_def arr_arg_def arg_def)
  have h2: "fst (createPerson (new_AttioClient (js ''k1'')) fetch_401 (Some (js ''Ann'')) None
               (Some [JStr (js ''555'')]) None None)
       = Inl (Error (js ''Attio API error: 401 Unauthorized - bad key''))"
    by (simp add: createPerson_def makeRequest_def fetch_401_def js_append js_append_left)
  have h3: "credential None req_create_person = Some (js ''k1'')"
    by (simp add: credential_def req_create_person_def truthy_def)
  have h4: "req_body req_create_person = ToolsCall (js ''attio_create_person'') person_args"
    by (simp add: req_create_person_def)
  have h5: "transports_get (get_sse (js ''s1'') state0) (query_sessionId req_create_person) \<noteq> None"
    by (simp add: transports_get_def get_sse_def req_create_person_def)
  have h6: "js ''k1'' \<noteq> []"
    by simp
  show ?thesis
    using adapter_fault_contained
      [OF h1 h2, where key = "js ''k1''" and env = None and req = req_create_person
         and st = "get_sse (js ''s1'') state0"]
      h2 h3 h4 h5 h6
    by (simp add: js_append)
qed

text \<open>
  C7. The list-tools handler answers with the same nine descriptors in the same order
  whatever the request context and the backend are, and issues no outbound request.
\<close>

theorem list_tools_stable:
  "handle_message toLowerCase store fetch ToolsList = (ListToolsResult list_tools, [])
   \<and> handle_message toLowerCase' store' fetch' ToolsList =
       handle_message toLowerCase store fetch ToolsList
   \<and> map tool_name list_tools =
       [js ''attio_search_people'', js ''attio_search_companies'', js ''attio_search_deals'',
        js ''attio_search_notes'', js ''attio_create_note'', js ''attio_create_person'',
        js ''attio_create_company'', js ''attio_update_person'', js ''attio_update_company'']
   \<and> length list_tools = 9"
  by (simp add: handle_message_def tool_names) (simp add: list_tools_def)

section \<open>Properties of the transport layer\<close>

text \<open>
  C8. A post to \<^verbatim>\<open>/messages\<close> whose session identifier is not in the session map is
  answered 404 with \<^verbatim>\<open>{error: "Transport not found"}\<close>; no request context is entered
  and nothing is sent to the backend. That includes the identifier of a session whose
  connection has closed, since closing removes the entry; removing it twice is the same
  as removing it once.
\<close>

theorem unknown_session_404:
  "(transports_get st (query_sessionId req) = None \<longrightarrow>
      post_messages toLowerCase env st fetch req =
        \<lparr>response = JsonResponse 404 (JObj [(js ''error'', JStr (js ''Transport not found''))]),
         run_store = None, outbound = []\<rparr>)
   \<and> (query_sessionId req = Some sid \<longrightarrow>
      post_messages toLowerCase env (on_close sid st) fetch req =
        \<lparr>response = JsonResponse 404 (JObj [(js ''error'', JStr (js ''Transport not found''))]),
         run_store = None, outbound = []\<rparr>)
   \<and> on_close sid (on_close sid st) = on_close sid st"
  by (simp add: post_messages_def transport_not_found_def transports_get_def on_close_def)

theorem unknown_session_404_witness:
  "transports_get state0 (query_sessionId req_create_person) = None
   \<and> post_messages toLowerCase_ascii None state0 fetch_401 req_create_person =
        \<lparr>response = JsonResponse 404 (JObj [(js ''error'', JStr (js ''Transport not found''))]),
         run_store = None, outbound = []\<rparr>
   \<and> query_sessionId req_create_person = Some (js ''s1'')
   \<and> transports_get (get_sse (js ''s1'') state0) (query_sessionId req_create_person) \<noteq> None
   \<and> post_messages toLowerCase_ascii None (on_close (js ''s1'') (get_sse (js ''s1'') state0)) fetch_401 req_create_person =
        \<lparr>response = JsonResponse 404 (JObj [(js ''error'', JStr (js ''Transport not found''))]),
         run_store = None, outbound = []\<rparr>"
  using unknown_session_404
      [where st = state0 and req = req_create_person and toLowerCase = toLowerCase_ascii
         and env = None and fetch = fetch_401 and sid = "js ''s1''"]
    unknown_session_404
      [where st = "get_sse (js ''s1'') state0" and req = req_create_person
         and toLowerCase = toLowerCase_ascii and env = None and fetch = fetch_401
         and sid = "js ''s1''"]
  by (simp add: transports_get_def state0_def req_create_person_def get_sse_def)

text \<open>
  C9. Without a credential (neither the process-wide default nor the header), a post to
  \<^verbatim>\<open>/mcp\<close>, and a post to \<^verbatim>\<open>/messages\<close> with a registered session, ends before a
  client is built and before \<^verbatim>\<open>asyncLocalStorage.run\<close> is entered, and it is given no
  answer. Whenever a route does hand a message to the engine, the store is present, so
  \<^verbatim>\<open>getAttioClient\<close> does not fail there.
\<close>

theorem missing_credential_short_circuit:
  "(\<not> truthy (credential env req) \<longrightarrow>
      post_mcp toLowerCase env connect fetch req =
        \<lparr>response = NoResponse, run_store = None, outbound = []\<rparr>
      \<and> (transports_get st (query_sessionId req) \<noteq> None \<longrightarrow>
         post_messages toLowerCase env st fetch req =
           \<lparr>response = NoResponse, run_store = None, outbound = []\<rparr>))
   \<and> (\<forall>r. response (post_mcp toLowerCase env connect fetch req) = ProtocolResponse r \<longrightarrow>
          (\<exists>c. getAttioClient (run_store (post_mcp toLowerCase env connect fetch req)) = Inr c))
   \<and> (\<forall>r. response (post_messages toLowerCase env st fetch req) = ProtocolResponse r \<longrightarrow>
          (\<exists>c. getAttioClient (run_store (post_messages toLowerCase env st fetch req)) = Inr c))"
proof -
  have run: "\<And>client msg. getAttioClient (run_store (run_in_store toLowerCase client fetch msg)) = Inr client"
    by (simp add: run_in_store_def getAttioClient_def Let_def split: prod.splits)
  have a: "\<not> truthy (credential env req) \<Longrightarrow>
      post_mcp toLowerCase env connect fetch req = \<lparr>response = NoResponse, run_store = None, outbound = []\<rparr>"
    by (simp add: post_mcp_def)
  have b: "\<not> truthy (credential env req) \<Longrightarrow> transports_get st (query_sessionId req) \<noteq> None \<Longrightarrow>
      post_messages toLowerCase env st fetch req = \<lparr>response = NoResponse, run_store = None, outbound = []\<rparr>"
    by (auto simp add: post_messages_def)
  have c: "\<And>r. response (post_mcp toLowerCase env connect fetch req) = ProtocolResponse r \<Longrightarrow>
          (\<exists>c. getAttioClient (run_store (post_mcp toLowerCase env connect fetch req)) = Inr c)"
    by (cases connect; cases "truthy (credential env req)") (simp_all add: post_mcp_def run)
  have d: "\<And>r. response (post_messages toLowerCase env st fetch req) = ProtocolResponse r \<Longrightarrow>
          (\<exists>c. getAttioClient (run_store (post_messages toLowerCase env st fetch req)) = Inr c)"
    by (cases "transports_get st (query_sessionId req)"; cases "truthy (credential env req)")
      (simp_all add: post_messages_def run transport_not_found_def)
  from a b c d show ?thesis by blast
qed

theorem missing_credential_short_circuit_witness:
  "\<not> truthy (credential None req_no_credential)
   \<and> transports_get (get_sse (js ''s1'') state0) (query_sessionId req_no_credential) \<noteq> None
   \<and> post_mcp toLowerCase_ascii None None fetch_notes req_no_credential =
        \<lparr>response = NoResponse, run_store = None, outbound = []\<rparr>
   \<and> post_messages toLowerCase_ascii None (get_sse (js ''s1'') state0) fetch_notes req_no_credential =
        \<lparr>response = NoResponse, run_store = None, outbound = []\<rparr>
   \<and> response (post_mcp toLowerCase_ascii None None fetch_notes req_create_person) =
        ProtocolResponse (fst (handle_message toLowerCase_ascii (Some \<lparr>attioClient = new_AttioClient (js ''k1'')\<rparr>)
                                 fetch_notes (req_body req_create_person)))
   \<and> getAttioClient (run_store (post_mcp toLowerCase_ascii None None fetch_notes req_create_person)) =
        Inr (new_AttioClient (js ''k1''))"
proof -
  have h1: "\<not> truthy (credential None req_no_credential)"
    by (simp add: credential_def truthy_def req_no_credential_def)
  have h2: "transports_get (get_sse (js ''s1'') state0) (query_sessionId req_no_credential) \<noteq> None"
    by (simp add: transports_get_def get_sse_def req_no_credential_def)
  have h3: "post_mcp toLowerCase_ascii None None fetch_notes req_create_person =
              run_in_store toLowerCase_ascii (new_AttioClient (js ''k1'')) fetch_notes (req_body req_create_person)"
    by (rule post_mcp_run) (simp_all add: credential_def truthy_def req_create_person_def)
  have h4: "response (post_mcp toLowerCase_ascii None None fetch_notes req_create_person) =
        ProtocolResponse (fst (handle_message toLowerCase_ascii (Some \<lparr>attioClient = new_AttioClient (js ''k1'')\<rparr>)
                                 fetch_notes (req_body req_create_person)))"
    unfolding h3 by (simp add: run_in_store_def Let_def split: prod.splits)
  have h5: "getAttioClient (run_store (post_mcp toLowerCase_ascii None None fetch_notes req_create_person)) =
        Inr (new_AttioClient (js ''k1''))"
    unfolding h3 by (simp add: run_in_store_def getAttioClient_def Let_def split: prod.splits)
  show ?thesis
    using missing_credential_short_circuit
      [where toLowerCase = toLowerCase_ascii and env = None and req = req_no_credential
         and connect = None and fetch = fetch_notes and st = "get_sse (js ''s1'') state0"]
      missing_credential_short_circuit
      [where toLowerCase = toLowerCase_ascii and env = None and req = req_create_person
         and connect = None and fetch = fetch_notes and st = "get_sse (js ''s1'') state0"]
      h1 h2 h4 h5
    by simp
qed


section \<open>The outbound requests\<close>

text \<open>Every adapter method issues exactly one request, and that request carries the
  key of the client it was called on.\<close>

lemma makeRequest_outbound:
  "snd (makeRequest this fetch ep options) =
     [\<lparr>http_method = http_method options,
       headers = spread [(js ''Authorization'', js ''Bearer '' @ apiKey this),
                         (js ''Content-Type'', js ''application/json'')] (headers options),
       body = body options,
       url = baseUrl this @ ep\<rparr>]"
  by (simp add: makeRequest_def Let_def)

lemma searchNotes_outbound:
  "snd (searchNotes toLowerCase this fetch query limit) =
     snd (makeRequest this fetch (js ''/notes?limit='' @ Number_toString limit)
            \<lparr>http_method = js ''GET'', headers = [], body = None\<rparr>)"
  by (simp add: searchNotes_def Let_def split: prod.splits sum.splits)

lemma adapter_call_outbound:
  assumes "adapter_call toLowerCase name args = Some f"
  shows "\<exists>m b u. snd (f client fetch) =
           [\<lparr>http_method = m,
             headers = [(js ''Authorization'', js ''Bearer '' @ apiKey client),
                        (js ''Content-Type'', js ''application/json'')],
             body = b, url = u\<rparr>]"
  using assms unfolding adapter_call_def
  by (auto split: if_splits
      simp add: searchPeople_def searchCompanies_def searchDeals_def query_records_def
        searchNotes_outbound createNote_def createPerson_def createCompany_def
        updatePerson_def updateCompany_def makeRequest_outbound)

lemma call_tool_outbound:
  "\<forall>rq \<in> set (snd (call_tool toLowerCase (Some \<lparr>attioClient = client\<rparr>) fetch name args)).
     map_of (headers rq) (js ''Authorization'') = Some (js ''Bearer '' @ apiKey client)"
proof (cases "adapter_call toLowerCase name args")
  case None
  then show ?thesis by (simp add: call_tool_def try_switch_def)
next
  case (Some f)
  obtain m b u where "snd (f client fetch) =
           [\<lparr>http_method = m,
             headers = [(js ''Authorization'', js ''Bearer '' @ apiKey client),
                        (js ''Content-Type'', js ''application/json'')],
             body = b, url = u\<rparr>]"
    using adapter_call_outbound [OF Some] by blast
  then show ?thesis
    by (cases "f client fetch") (auto simp add: call_tool_known [OF Some] split: sum.splits)
qed

lemma handle_message_outbound:
  "\<forall>rq \<in> set (snd (handle_message toLowerCase (Some \<lparr>attioClient = client\<rparr>) fetch msg)).
     map_of (headers rq) (js ''Authorization'') = Some (js ''Bearer '' @ apiKey client)"
proof (cases msg)
  case (ToolsCall name args)
  then show ?thesis
    using call_tool_outbound [of toLowerCase client fetch name args]
    by (cases "call_tool toLowerCase (Some \<lparr>attioClient = client\<rparr>) fetch name args")
      (simp add: handle_message_def)
qed (simp_all add: handle_message_def)

lemma run_in_store_eq:
  "run_in_store toLowerCase client fetch msg =
     \<lparr>response = ProtocolResponse (fst (handle_message toLowerCase (Some \<lparr>attioClient = client\<rparr>) fetch msg)),
      run_store = Some \<lparr>attioClient = client\<rparr>,
      outbound = snd (handle_message toLowerCase (Some \<lparr>attioClient = client\<rparr>) fetch msg)\<rparr>"
  by (simp add: run_in_store_def Let_def split: prod.splits)

text \<open>
  C1. On both routes a request that carries a credential is handled under one request
  context, whose client is built from the credential of this very request; the outcome
  is a function of the request, the process-wide default and the backend alone, so the
  session map (the only state of the server) holds no client and a long-lived session
  pins none. Every outbound request issued while the request is handled carries this
  request's credential.
\<close>

theorem fresh_context_per_request:
  assumes "credential env req = Some key" and "key \<noteq> []"
  shows "post_mcp toLowerCase env None fetch req =
           \<lparr>response = ProtocolResponse
              (fst (handle_message toLowerCase (Some \<lparr>attioClient = new_AttioClient key\<rparr>) fetch (req_body req))),
            run_store = Some \<lparr>attioClient = new_AttioClient key\<rparr>,
            outbound = snd (handle_message toLowerCase (Some \<lparr>attioClient = new_AttioClient key\<rparr>) fetch (req_body req))\<rparr>
         \<and> (\<forall>rq \<in> set (outbound (post_mcp toLowerCase env connect fetch req)).
               map_of (headers rq) (js ''Authorization'') = Some (js ''Bearer '' @ key))
         \<and> (transports_get st (query_sessionId req) \<noteq> None \<longrightarrow>
              post_messages toLowerCase env st fetch req =
                \<lparr>response = ProtocolResponse
                   (fst (handle_message toLowerCase (Some \<lparr>attioClient = new_AttioClient key\<rparr>) fetch (req_body req))),
                 run_store = Some \<lparr>attioClient = new_AttioClient key\<rparr>,
                 outbound = snd (handle_message toLowerCase (Some \<lparr>attioClient = new_AttioClient key\<rparr>) fetch (req_body req))\<rparr>
              \<and> (\<forall>rq \<in> set (outbound (post_messages toLowerCase env st fetch req)).
                    map_of (headers rq) (js ''Authorization'') = Some (js ''Bearer '' @ key)))"
proof -
  have k: "apiKey (new_AttioClient key) = key"
    by (simp add: new_AttioClient_def)
  have ob: "\<forall>rq \<in> set (outbound (run_in_store toLowerCase (new_AttioClient key) fetch (req_body req))).
              map_of (headers rq) (js ''Authorization'') = Some (js ''Bearer '' @ key)"
    using handle_message_outbound [of toLowerCase "new_AttioClient key" fetch "req_body req"]
    by (simp add: run_in_store_eq k)
  have a: "post_mcp toLowerCase env None fetch req = run_in_store toLowerCase (new_AttioClient key) fetch (req_body req)"
    using assms by (rule post_mcp_run)
  have b: "\<forall>rq \<in> set (outbound (post_mcp toLowerCase env connect fetch req)).
               map_of (headers rq) (js ''Authorization'') = Some (js ''Bearer '' @ key)"
  proof (cases connect)
    case None
    then show ?thesis using a ob by simp
  next
    case (Some e)
    then show ?thesis using assms by (simp add: post_mcp_def truthy_def)
  qed
  have c: "transports_get st (query_sessionId req) \<noteq> None \<Longrightarrow>
             post_messages toLowerCase env st fetch req =
               run_in_store toLowerCase (new_AttioClient key) fetch (req_body req)"
    using assms by (rule post_messages_run)
  show ?thesis
    using a b c ob by (simp add: run_in_store_eq)
qed

theorem fresh_context_per_request_witness:
  "run_store (post_mcp toLowerCase_ascii None None fetch_401 req_create_person) =
        Some \<lparr>attioClient = new_AttioClient (js ''k1'')\<rparr>
   \<and> run_store (post_messages toLowerCase_ascii None (get_sse (js ''s1'') state0) fetch_401 req_create_person) =
        Some \<lparr>attioClient = new_AttioClient (js ''k1'')\<rparr>
   \<and> run_store (post_messages toLowerCase_ascii None (get_sse (js ''s1'') state0) fetch_401 req_other_key) =
        Some \<lparr>attioClient = new_AttioClient (js ''k2'')\<rparr>
   \<and> map (\<lambda>rq. map_of (headers rq) (js ''Authorization''))
         (outbound (post_messages toLowerCase_ascii None (get_sse (js ''s1'') state0) fetch_401 req_create_person)) =
        [Some (js ''Bearer k1'')]
   \<and> map (\<lambda>rq. map_of (headers rq) (js ''Authorization''))
         (outbound (post_messages toLowerCase_ascii None (get_sse (js ''s1'') state0) fetch_401 req_other_key)) =
        [Some (js ''Bearer k2'')]"
proof -
  have h1: "credential None req_create_person = Some (js ''k1'')"
    by (simp add: credential_def truthy_def req_create_person_def)
  have h2: "credential None req_other_key = Some (js ''k2'')"
    by (simp add: credential_def truthy_def req_other_key_def)
  have h3: "transports_get (get_sse (js ''s1'') state0) (query_sessionId req_create_person) \<noteq> None"
    by (simp add: transports_get_def get_sse_def req_create_person_def)
  have h4: "transports_get (get_sse (js ''s1'') state0) (query_sessionId req_other_key) \<noteq> None"
    by (simp add: transports_get_def get_sse_def req_other_key_def)
  have h5: "adapter_call toLowerCase_ascii (js ''attio_create_person'') person_args =
     Some (\<lambda>client fetch. createPerson client fetch (Some (js ''Ann'')) None (Some [JStr (js ''555'')]) None None)"
    by (simp add: adapter_call_def person_args_def str_arg_def arr_arg_def arg_def)
  have h6: "\<And>key. length (snd (handle_message toLowerCase_ascii (Some \<lparr>attioClient = new_AttioClient key\<rparr>) fetch_401
              (ToolsCall (js ''attio_create_person'') person_args))) = 1"
    by (simp add: handle_message_def call_tool_known [OF h5] createPerson_def
        makeRequest_def Let_def split: prod.splits sum.splits)
  have one: "\<And>xs (v::jstring option). length xs = 1 \<Longrightarrow>
               \<forall>rq \<in> set xs. map_of (headers rq) (js ''Authorization'') = v \<Longrightarrow>
               map (\<lambda>rq. map_of (headers rq) (js ''Authorization'')) xs = [v]"
    by (case_tac xs) simp_all
  have b1: "req_body req_create_person = ToolsCall (js ''attio_create_person'') person_args"
    by (simp add: req_create_person_def)
  have b2: "req_body req_other_key = ToolsCall (js ''attio_create_person'') person_args"
    by (simp add: req_other_key_def)
  note t1 = fresh_context_per_request
        [OF h1, where toLowerCase = toLowerCase_ascii and fetch = fetch_401 and connect = None
           and st = "get_sse (js ''s1'') state0"]
  note t2 = fresh_context_per_request
        [OF h2, where toLowerCase = toLowerCase_ascii and fetch = fetch_401 and connect = None
           and st = "get_sse (js ''s1'') state0"]
  have a1: "map (\<lambda>rq. map_of (headers rq) (js ''Authorization''))
         (outbound (post_messages toLowerCase_ascii None (get_sse (js ''s1'') state0)
            fetch_401 req_create_person)) =
        [Some (js ''Bearer k1'')]"
    using t1 h3 h6 [of "js ''k1''"] by (intro one) (simp_all add: b1 js_append)
  have a2: "map (\<lambda>rq. map_of (headers rq) (js ''Authorization''))
         (outbound (post_messages toLowerCase_ascii None (get_sse (js ''s1'') state0)
            fetch_401 req_other_key)) =
        [Some (js ''Bearer k2'')]"
    using t2 h4 h6 [of "js ''k2''"] by (intro one) (simp_all add: b2 js_append)
  show ?thesis
    using t1 t2 h3 h4 a1 a2 by simp
qed


lemma call_tool_known_outbound:
  assumes "adapter_call toLowerCase name args = Some f"
  shows "snd (call_tool toLowerCase (Some \<lparr>attioClient = client\<rparr>) fetch name args) =
           snd (f client fetch)"
  by (cases "f client fetch") (simp add: call_tool_known [OF assms] split: sum.splits)

lemma query_records_outbound:
  "snd (query_records client fetch ep filters l) =
     [\<lparr>http_method = js ''POST'',
       headers = [(js ''Authorization'', js ''Bearer '' @ apiKey client),
                  (js ''Content-Type'', js ''application/json'')],
       body = Some (JSON_stringify (JObj
                (if filters = [] then [(js ''limit'', JNum l)]
                 else [(js ''filter'', JObj filters), (js ''limit'', JNum l)]))),
       url = baseUrl client @ ep\<rparr>]"
  by (simp add: query_records_def makeRequest_outbound)

lemma stringify_limit:
  "JSON_stringify (JObj [(js ''limit'', JNum l)]) =
     js ''{'' @ [0x22] @ js ''limit'' @ [0x22] @ js '':''
     @ (if isFinite l then Number_toString l else js ''null'') @ js ''}''"
  by (simp add: JSON_stringify_def QuoteJSONString_def quote_unit_def js_def
      is_leading_surrogate_def is_trailing_surrogate_def)

text \<open>
  C5. Every search call issues exactly one backend request. For people, companies and
  deals it is a POST whose body is the serialisation of \<^verbatim>\<open>{limit}\<close> when the filter
  object is empty and of \<^verbatim>\<open>{filter, limit}\<close> otherwise; for notes it is a GET of
  \<^verbatim>\<open>/notes?limit=<limit>\<close>. In every case the limit is the \<^verbatim>\<open>limit\<close> argument as it was
  given, whatever its value, when that is a number; otherwise it is 25, and 50 for
  notes. When the arguments hold nothing beyond \<^verbatim>\<open>limit\<close>, the body of the POST is the
  text \<^verbatim>\<open>{"limit":n}\<close> and nothing else, \<open>n\<close> being the rendering of the limit (and
  \<^verbatim>\<open>null\<close> for a limit that is not finite).
\<close>

theorem unfiltered_search_request:
  "(let l25 = (case arg args (js ''limit'') of Some (JNum n) \<Rightarrow> n | _ \<Rightarrow> Number (js ''25''));
        l50 = (case arg args (js ''limit'') of Some (JNum n) \<Rightarrow> n | _ \<Rightarrow> Number (js ''50''));
        hdrs = [(js ''Authorization'', js ''Bearer '' @ apiKey client),
                (js ''Content-Type'', js ''application/json'')];
        post = (\<lambda>ep filters.
                  [\<lparr>http_method = js ''POST'', headers = hdrs,
                    body = Some (JSON_stringify (JObj
                             (if filters = [] then [(js ''limit'', JNum l25)]
                              else [(js ''filter'', JObj filters), (js ''limit'', JNum l25)]))),
                    url = baseUrl client @ ep\<rparr>]);
        post_limit_only = (\<lambda>ep.
                  [\<lparr>http_method = js ''POST'', headers = hdrs,
                    body = Some (js ''{'' @ [0x22] @ js ''limit'' @ [0x22] @ js '':''
                                 @ (if isFinite l25 then Number_toString l25 else js ''null'')
                                 @ js ''}''),
                    url = baseUrl client @ ep\<rparr>]);
        issued = (\<lambda>name. snd (call_tool toLowerCase (Some \<lparr>attioClient = client\<rparr>) fetch name args))
    in issued (js ''attio_search_people'') =
         post (js ''/objects/people/records/query'') (people_filters args)
     \<and> issued (js ''attio_search_companies'') =
         post (js ''/objects/companies/records/query'') (companies_filters args)
     \<and> issued (js ''attio_search_deals'') =
         post (js ''/objects/deals/records/query'') (deals_filters args)
     \<and> issued (js ''attio_search_notes'') =
         [\<lparr>http_method = js ''GET'', headers = hdrs, body = None,
           url = baseUrl client @ js ''/notes?limit='' @ Number_toString l50\<rparr>]
     \<and> ((\<forall>k. k \<noteq> js ''limit'' \<longrightarrow> arg args k = None) \<longrightarrow>
          issued (js ''attio_search_people'') =
            post_limit_only (js ''/objects/people/records/query'')
          \<and> issued (js ''attio_search_companies'') =
            post_limit_only (js ''/objects/companies/records/query'')
          \<and> issued (js ''attio_search_deals'') =
            post_limit_only (js ''/objects/deals/records/query'')))"
proof -
  have p: "adapter_call toLowerCase (js ''attio_search_people'') args =
      Some (\<lambda>client fetch. searchPeople client fetch (people_filters args)
              (num_arg_or args (js ''limit'') (Number (js ''25''))))"
    by (simp add: adapter_call_def)
  have c: "adapter_call toLowerCase (js ''attio_search_companies'') args =
      Some (\<lambda>client fetch. searchCompanies client fetch (companies_filters args)
              (num_arg_or args (js ''limit'') (Number (js ''25''))))"
    by (simp add: adapter_call_def)
  have d: "adapter_call toLowerCase (js ''attio_search_deals'') args =
      Some (\<lambda>client fetch. searchDeals client fetch (deals_filters args)
              (num_arg_or args (js ''limit'') (Number (js ''25''))))"
    by (simp add: adapter_call_def)
  have n: "adapter_call toLowerCase (js ''attio_search_notes'') args =
      Some (\<lambda>client fetch. searchNotes toLowerCase client fetch (str_arg_or args (js ''query'') [])
              (num_arg_or args (js ''limit'') (Number (js ''50''))))"
    by (simp add: adapter_call_def)
  have 1: "snd (call_tool toLowerCase (Some \<lparr>attioClient = client\<rparr>) fetch
                  (js ''attio_search_people'') args) =
             snd (query_records client fetch (js ''/objects/people/records/query'')
                    (people_filters args) (num_arg_or args (js ''limit'') (Number (js ''25''))))"
    by (simp add: call_tool_known_outbound [OF p] searchPeople_def)
  have 2: "snd (call_tool toLowerCase (Some \<lparr>attioClient = client\<rparr>) fetch
                  (js ''attio_search_companies'') args) =
             snd (query_records client fetch (js ''/objects/companies/records/query'')
                    (companies_filters args) (num_arg_or args (js ''limit'') (Number (js ''25''))))"
    by (simp add: call_tool_known_outbound [OF c] searchCompanies_def)
  have 3: "snd (call_tool toLowerCase (Some \<lparr>attioClient = client\<rparr>) fetch
                  (js ''attio_search_deals'') args) =
             snd (query_records client fetch (js ''/objects/deals/records/query'')
                    (deals_filters args) (num_arg_or args (js ''limit'') (Number (js ''25''))))"
    by (simp add: call_tool_known_outbound [OF d] searchDeals_def)
  have 4: "snd (call_tool toLowerCase (Some \<lparr>attioClient = client\<rparr>) fetch
                  (js ''attio_search_notes'') args) =
             [\<lparr>http_method = js ''GET'',
               headers = [(js ''Authorization'', js ''Bearer '' @ apiKey client),
                          (js ''Content-Type'', js ''application/json'')],
               body = None,
               url = baseUrl client @ js ''/notes?limit=''
                     @ Number_toString (num_arg_or args (js ''limit'') (Number (js ''50'')))\<rparr>]"
    by (simp add: call_tool_known_outbound [OF n] searchNotes_outbound makeRequest_outbound)
  have e: "(\<forall>k. k \<noteq> js ''limit'' \<longrightarrow> arg args k = None) \<Longrightarrow>
             people_filters args = [] \<and> companies_filters args = [] \<and> deals_filters args = []"
  proof -
    assume a: "\<forall>k. k \<noteq> js ''limit'' \<longrightarrow> arg args k = None"
    have none: "arg args (js ''query'') = None" "arg args (js ''email'') = None"
      "arg args (js ''domain'') = None" "arg args (js ''name'') = None"
      "arg args (js ''stage'') = None" "arg args (js ''minValue'') = None"
      "arg args (js ''maxValue'') = None"
      using a by simp_all
    show ?thesis
      by (simp add: people_filters_def companies_filters_def deals_filters_def none is_number_def)
  qed
  show ?thesis
    unfolding Let_def 1 2 3 4 query_records_outbound num_arg_or_def
    using e by (auto simp add: stringify_limit)
qed

theorem unfiltered_search_request_witness:
  "map body (snd (call_tool toLowerCase_ascii (Some \<lparr>attioClient = new_AttioClient (js ''k1'')\<rparr>)
                    fetch_notes (js ''attio_search_people'') limit_args)) =
     [Some (js ''{'' @ dq @ js ''limit'' @ dq @ js '':1e+21}'')]
   \<and> map url (snd (call_tool toLowerCase_ascii (Some \<lparr>attioClient = new_AttioClient (js ''k1'')\<rparr>)
                    fetch_notes (js ''attio_search_notes'') limit_args)) =
     [js ''https://api.attio.com/v2/notes?limit=1e+21'']
   \<and> map body (snd (call_tool toLowerCase_ascii (Some \<lparr>attioClient = new_AttioClient (js ''k1'')\<rparr>)
                    fetch_notes (js ''attio_search_deals'') None)) =
     [Some (js ''{'' @ dq @ js ''limit'' @ dq @ js '':25}'')]
   \<and> map url (snd (call_tool toLowerCase_ascii (Some \<lparr>attioClient = new_AttioClient (js ''k1'')\<rparr>)
                    fetch_notes (js ''attio_search_notes'') None)) =
     [js ''https://api.attio.com/v2/notes?limit=50'']
   \<and> map body (snd (call_tool toLowerCase_ascii (Some \<lparr>attioClient = new_AttioClient (js ''k1'')\<rparr>)
                    fetch_notes (js ''attio_search_people'') email_args)) =
     [Some (js ''{'' @ dq @ js ''filter'' @ dq @ js '':{'' @ dq @ js ''email_addresses'' @ dq
            @ js '':'' @ dq @ js ''a@b.c'' @ dq @ js ''},'' @ dq @ js ''limit'' @ dq @ js '':25}'')]"
proof -
  have h1: "\<forall>k. k \<noteq> js ''limit'' \<longrightarrow> arg limit_args k = None"
    by (simp add: arg_def limit_args_def)
  have h2: "\<forall>k. k \<noteq> js ''limit'' \<longrightarrow> arg None k = None"
    by (simp add: arg_def)
  have l1: "arg limit_args (js ''limit'') = Some (JNum (Number (js ''1e+21'')))"
    by (simp add: arg_def limit_args_def)
  have l2: "arg None (js ''limit'') = None"
    by (simp add: arg_def)
  have l3: "arg email_args (js ''limit'') = None"
    by (simp add: arg_def email_args_def)
  have f3: "people_filters email_args = [(js ''email_addresses'', JStr (js ''a@b.c''))]"
    by (simp add: people_filters_def arg_def email_args_def)
  have s3: "JSON_stringify (JObj [(js ''filter'', JObj [(js ''email_addresses'', JStr (js ''a@b.c''))]),
                                  (js ''limit'', JNum (Number (js ''25'')))]) =
            js ''{'' @ dq @ js ''filter'' @ dq @ js '':{'' @ dq @ js ''email_addresses'' @ dq
            @ js '':'' @ dq @ js ''a@b.c'' @ dq @ js ''},'' @ dq @ js ''limit'' @ dq @ js '':25}''"
    by (simp add: JSON_stringify_def QuoteJSONString_def quote_unit_def js_def dq_def
        is_leading_surrogate_def is_trailing_surrogate_def isFinite_def)
  have fin: "isFinite (Number (js ''1e+21''))" "isFinite (Number (js ''25''))"
    by (simp_all add: isFinite_def)
  note t1 = unfiltered_search_request
      [where args = limit_args and toLowerCase = toLowerCase_ascii
         and client = "new_AttioClient (js ''k1'')" and fetch = fetch_notes, unfolded Let_def]
  note t2 = unfiltered_search_request
      [where args = None and toLowerCase = toLowerCase_ascii
         and client = "new_AttioClient (js ''k1'')" and fetch = fetch_notes, unfolded Let_def]
  note t3 = unfiltered_search_request
      [where args = email_args and toLowerCase = toLowerCase_ascii
         and client = "new_AttioClient (js ''k1'')" and fetch = fetch_notes, unfolded Let_def]
  note only1 = t1 [THEN conjunct2, THEN conjunct2, THEN conjunct2, THEN conjunct2, THEN mp, OF h1]
  note only2 = t2 [THEN conjunct2, THEN conjunct2, THEN conjunct2, THEN conjunct2, THEN mp, OF h2]
  note notes1 = t1 [THEN conjunct2, THEN conjunct2, THEN conjunct2, THEN conjunct1]
  note notes2 = t2 [THEN conjunct2, THEN conjunct2, THEN conjunct2, THEN conjunct1]
  note people3 = t3 [THEN conjunct1]
  have a: "map body (snd (call_tool toLowerCase_ascii (Some \<lparr>attioClient = new_AttioClient (js ''k1'')\<rparr>)
                    fetch_notes (js ''attio_search_people'') limit_args)) =
     [Some (js ''{'' @ dq @ js ''limit'' @ dq @ js '':1e+21}'')]"
    unfolding only1 [THEN conjunct1]
    by (simp add: l1 fin dq_def js_append js_append_left)
  have b: "map url (snd (call_tool toLowerCase_ascii (Some \<lparr>attioClient = new_AttioClient (js ''k1'')\<rparr>)
                    fetch_notes (js ''attio_search_notes'') limit_args)) =
     [js ''https://api.attio.com/v2/notes?limit=1e+21'']"
    unfolding notes1
    by (simp add: l1 new_AttioClient_def ATTIO_API_URL_def js_append js_append_left)
  have c: "map body (snd (call_tool toLowerCase_ascii (Some \<lparr>attioClient = new_AttioClient (js ''k1'')\<rparr>)
                    fetch_notes (js ''attio_search_deals'') None)) =
     [Some (js ''{'' @ dq @ js ''limit'' @ dq @ js '':25}'')]"
    unfolding only2 [THEN conjunct2, THEN conjunct2]
    by (simp add: l2 fin dq_def js_append js_append_left)
  have d: "map url (snd (call_tool toLowerCase_ascii (Some \<lparr>attioClient = new_AttioClient (js ''k1'')\<rparr>)
                    fetch_notes (js ''attio_search_notes'') None)) =
     [js ''https://api.attio.com/v2/notes?limit=50'']"
    unfolding notes2
    by (simp add: l2 new_AttioClient_def ATTIO_API_URL_def js_append js_append_left)
  have e: "map body (snd (call_tool toLowerCase_ascii (Some \<lparr>attioClient = new_AttioClient (js ''k1'')\<rparr>)
                    fetch_notes (js ''attio_search_people'') email_args)) =
     [Some (js ''{'' @ dq @ js ''filter'' @ dq @ js '':{'' @ dq @ js ''email_addresses'' @ dq
            @ js '':'' @ dq @ js ''a@b.c'' @ dq @ js ''},'' @ dq @ js ''limit'' @ dq @ js '':25}'')]"
    unfolding people3
    by (simp add: l3 f3 s3)
  from a b c d e show ?thesis by blast
qed

section \<open>The note search\<close>

text \<open>\<^verbatim>\<open>includes\<close> is the substring test.\<close>

lemma take_length_iff: "take (length q) xs = q \<longleftrightarrow> (\<exists>b. xs = q @ b)"
proof
  assume "take (length q) xs = q"
  then have "xs = q @ drop (length q) xs"
    by (metis append_take_drop_id)
  then show "\<exists>b. xs = q @ b" ..
next
  assume "\<exists>b. xs = q @ b"
  then show "take (length q) xs = q" by auto
qed

lemma includes_str_iff: "includes_str s q \<longleftrightarrow> (\<exists>a b. s = a @ q @ b)"
proof (induction s)
  case Nil
  then show ?case by auto
next
  case (Cons c s)
  show ?case
  proof
    assume "includes_str (c # s) q"
    then consider "take (length q) (c # s) = q" | "includes_str s q" by auto
    then show "\<exists>a b. c # s = a @ q @ b"
    proof cases
      case 1
      then obtain b where "c # s = q @ b" using take_length_iff by blast
      then have "c # s = [] @ q @ b" by simp
      then show ?thesis by blast
    next
      case 2
      then obtain a b where "s = a @ q @ b" using Cons.IH by blast
      then have "c # s = (c # a) @ q @ b" by simp
      then show ?thesis by blast
    qed
  next
    assume "\<exists>a b. c # s = a @ q @ b"
    then obtain a b where ab: "c # s = a @ q @ b" by blast
    show "includes_str (c # s) q"
    proof (cases a)
      case Nil
      with ab have "take (length q) (c # s) = q" using take_length_iff by fastforce
      then show ?thesis by simp
    next
      case (Cons x a')
      with ab have "s = a' @ q @ b" by simp
      then have "includes_str s q" using Cons.IH by blast
      then show ?thesis by simp
    qed
  qed
qed

text \<open>On an element that is not \<^verbatim>\<open>null\<close> the callback of the filter does not throw, and
  it computes the disjunction over the three fields; on \<^verbatim>\<open>null\<close> it throws at the first
  property read.\<close>

lemma note_matches_record:
  assumes "x \<noteq> JNull"
  shows "note_matches toLowerCase q x = Inr (note_mentions toLowerCase q x)"
proof -
  have g: "\<And>k. get_prop x k = Inr (case x of JObj kvs \<Rightarrow> map_of kvs k | _ \<Rightarrow> None)"
    using assms by (cases x) simp_all
  have f: "\<And>v. field_match toLowerCase v q =
             (case v of Some (JStr s) \<Rightarrow> includes_str (toLowerCase s) q | _ \<Rightarrow> False)"
    by (simp add: field_match_def)
  show ?thesis
    by (simp add: note_matches_def note_mentions_def g f Let_def)
qed

lemma note_matches_null:
  "note_matches toLowerCase q JNull =
     Inl (TypeError (js ''Cannot read properties of null (reading '' @ [0x27] @ js ''title''
                     @ [0x27] @ js '')''))"
  by (simp add: note_matches_def)

lemma Array_filter_total:
  assumes "\<forall>x \<in> set xs. p x = Inr (P x)"
  shows "Array_filter p xs = Inr (filter P xs)"
  using assms by (induction xs) simp_all

lemma Array_filter_null:
  assumes "JNull \<in> set xs"
  shows "Array_filter (note_matches toLowerCase q) xs =
           Inl (TypeError (js ''Cannot read properties of null (reading '' @ [0x27] @ js ''title''
                     @ [0x27] @ js '')''))"
  using assms
proof (induction xs)
  case Nil
  then show ?case by simp
next
  case (Cons x xs)
  show ?case
  proof (cases "x = JNull")
    case True
    then show ?thesis by (simp add: note_matches_null)
  next
    case False
    with Cons.prems have "JNull \<in> set xs" by simp
    then have "Array_filter (note_matches toLowerCase q) xs =
           Inl (TypeError (js ''Cannot read properties of null (reading '' @ [0x27] @ js ''title''
                     @ [0x27] @ js '')''))"
      by (rule Cons.IH)
    then show ?thesis
      by (simp add: note_matches_record [OF False] note_matches_null)
  qed
qed

lemma map_of_set_prop: "map_of (set_prop kvs k v) k = Some v"
  by (induction kvs) auto

text \<open>
  C4, as the code has it. \<^verbatim>\<open>searchNotes(query, limit)\<close> issues one request, the
  unfiltered listing \<^verbatim>\<open>GET /notes?limit=<limit>\<close>. When the backend answers with a page
  whose \<^verbatim>\<open>data\<close> is an array, an empty or blank query returns the page as it is. Any
  other query, when no element of the page is \<^verbatim>\<open>null\<close>, returns the page with its
  \<^verbatim>\<open>data\<close> replaced by those elements, in order and unchanged, whose title, plaintext
  content or markdown content, lower-cased, has the lower-cased query as a substring;
  when an element of the page is \<^verbatim>\<open>null\<close> it throws a \<^verbatim>\<open>TypeError\<close> instead. Every
  note returned is a note of the fetched page.
\<close>

theorem searchNotes_filters_fetched_page:
  assumes "fetch \<lparr>http_method = js ''GET'',
                  headers = [(js ''Authorization'', js ''Bearer '' @ apiKey this),
                             (js ''Content-Type'', js ''application/json'')],
                  body = None,
                  url = baseUrl this @ js ''/notes?limit='' @ Number_toString limit\<rparr> = Inr resp"
      and "ok resp"
      and "json_body resp = Inr (JObj page)"
      and "map_of page (js ''data'') = Some (JArr notes)"
  shows "snd (searchNotes toLowerCase this fetch query limit) =
           [\<lparr>http_method = js ''GET'',
             headers = [(js ''Authorization'', js ''Bearer '' @ apiKey this),
                        (js ''Content-Type'', js ''application/json'')],
             body = None,
             url = baseUrl this @ js ''/notes?limit='' @ Number_toString limit\<rparr>]
         \<and> (query = [] \<or> trim query = [] \<longrightarrow>
              fst (searchNotes toLowerCase this fetch query limit) = Inr (JObj page))
         \<and> (query \<noteq> [] \<and> trim query \<noteq> [] \<and> JNull \<notin> set notes \<longrightarrow>
              fst (searchNotes toLowerCase this fetch query limit) =
                Inr (JObj (set_prop page (js ''data'')
                       (JArr (filter (note_mentions toLowerCase (toLowerCase query)) notes)))))
         \<and> (query \<noteq> [] \<and> trim query \<noteq> [] \<and> JNull \<in> set notes \<longrightarrow>
              fst (searchNotes toLowerCase this fetch query limit) =
                Inl (TypeError (js ''Cannot read properties of null (reading '' @ [0x27]
                                @ js ''title'' @ [0x27] @ js '')'')))
         \<and> (\<forall>r. fst (searchNotes toLowerCase this fetch query limit) = Inr (JObj r) \<longrightarrow>
               set (data_of r) \<subseteq> set notes)
         \<and> (\<forall>s q. includes_str s q \<longleftrightarrow> (\<exists>a b. s = a @ q @ b))"
proof -
  have mk: "makeRequest this fetch (js ''/notes?limit='' @ Number_toString limit)
              \<lparr>http_method = js ''GET'', headers = [], body = None\<rparr> =
            (json_body resp,
             [\<lparr>http_method = js ''GET'',
               headers = [(js ''Authorization'', js ''Bearer '' @ apiKey this),
                          (js ''Content-Type'', js ''application/json'')],
               body = None,
               url = baseUrl this @ js ''/notes?limit='' @ Number_toString limit\<rparr>])"
    using assms(1) assms(2) by (simp add: makeRequest_def Let_def)
  have g: "guard_notes (JObj page) = page"
    by (simp add: guard_notes_def has_data_array_def assms(4))
  have d: "data_of page = notes"
    by (simp add: data_of_def assms(4))
  have log: "snd (searchNotes toLowerCase this fetch query limit) =
           [\<lparr>http_method = js ''GET'',
             headers = [(js ''Authorization'', js ''Bearer '' @ apiKey this),
                        (js ''Content-Type'', js ''application/json'')],
             body = None,
             url = baseUrl this @ js ''/notes?limit='' @ Number_toString limit\<rparr>]"
    unfolding searchNotes_def mk by (simp add: assms(3) Let_def split: sum.splits)
  have blank: "query = [] \<or> trim query = [] \<Longrightarrow>
              fst (searchNotes toLowerCase this fetch query limit) = Inr (JObj page)"
    unfolding searchNotes_def mk by (auto simp add: assms(3) g Let_def)
  have plain: "query \<noteq> [] \<and> trim query \<noteq> [] \<and> JNull \<notin> set notes \<Longrightarrow>
              fst (searchNotes toLowerCase this fetch query limit) =
                Inr (JObj (set_prop page (js ''data'')
                       (JArr (filter (note_mentions toLowerCase (toLowerCase query)) notes))))"
  proof -
    assume a: "query \<noteq> [] \<and> trim query \<noteq> [] \<and> JNull \<notin> set notes"
    then have "\<forall>x \<in> set notes. note_matches toLowerCase (toLowerCase query) x =
             Inr (note_mentions toLowerCase (toLowerCase query) x)"
      using note_matches_record by metis
    then have f: "Array_filter (note_matches toLowerCase (toLowerCase query)) notes =
             Inr (filter (note_mentions toLowerCase (toLowerCase query)) notes)"
      by (rule Array_filter_total)
    show ?thesis
      unfolding searchNotes_def mk using a by (simp add: assms(3) g d f Let_def)
  qed
  have null: "query \<noteq> [] \<and> trim query \<noteq> [] \<and> JNull \<in> set notes \<Longrightarrow>
              fst (searchNotes toLowerCase this fetch query limit) =
                Inl (TypeError (js ''Cannot read properties of null (reading '' @ [0x27]
                                @ js ''title'' @ [0x27] @ js '')''))"
  proof -
    assume a: "query \<noteq> [] \<and> trim query \<noteq> [] \<and> JNull \<in> set notes"
    then have f: "Array_filter (note_matches toLowerCase (toLowerCase query)) notes =
           Inl (TypeError (js ''Cannot read properties of null (reading '' @ [0x27] @ js ''title''
                     @ [0x27] @ js '')''))"
      using Array_filter_null by blast
    show ?thesis
      unfolding searchNotes_def mk using a
      by (simp add: assms(3) g d f note_matches_null Let_def)
  qed
  have sub: "\<forall>r. fst (searchNotes toLowerCase this fetch query limit) = Inr (JObj r) \<longrightarrow>
               set (data_of r) \<subseteq> set notes"
  proof (cases "query = [] \<or> trim query = []")
    case True
    then show ?thesis using blank d by auto
  next
    case False
    show ?thesis
    proof (cases "JNull \<in> set notes")
      case True
      with False show ?thesis using null by simp
    next
      case n: False
      with False have "fst (searchNotes toLowerCase this fetch query limit) =
                Inr (JObj (set_prop page (js ''data'')
                       (JArr (filter (note_mentions toLowerCase (toLowerCase query)) notes))))"
        using plain by blast
      then show ?thesis
        by (auto simp add: data_of_def map_of_set_prop)
    qed
  qed
  from log blank plain null sub includes_str_iff show ?thesis by blast
qed

theorem searchNotes_filters_fetched_page_witness:
  "searchNotes toLowerCase_ascii (new_AttioClient (js ''k1'')) fetch_notes (js ''needle'')
      (Number (js ''50'')) =
     (Inr (JObj [(js ''data'', JArr
                   [JObj [(js ''id'', JNum (Number (js ''2''))), (js ''title'', JStr (js ''Beta'')),
                          (js ''content_markdown'', JStr (js ''a NEEDLE here''))]]),
                 (js ''next'', JNull)]),
      [\<lparr>http_method = js ''GET'',
        headers = [(js ''Authorization'', js ''Bearer k1''),
                   (js ''Content-Type'', js ''application/json'')],
        body = None,
        url = js ''https://api.attio.com/v2/notes?limit=50''\<rparr>])
   \<and> fst (searchNotes toLowerCase_ascii (new_AttioClient (js ''k1'')) fetch_notes [0xA0, 0x20]
           (Number (js ''50''))) = Inr three_notes
   \<and> fst (searchNotes toLowerCase_ascii (new_AttioClient (js ''k1'')) fetch_null_note
           (js ''needle'') (Number (js ''50''))) =
       Inl (TypeError (js ''Cannot read properties of null (reading '' @ [0x27]
                       @ js ''title'' @ [0x27] @ js '')''))"
proof -
  let ?page = "[(js ''data'', JArr
             [JObj [(js ''id'', JNum (Number (js ''1''))), (js ''title'', JStr (js ''Alpha''))],
              JObj [(js ''id'', JNum (Number (js ''2''))), (js ''title'', JStr (js ''Beta'')),
                    (js ''content_markdown'', JStr (js ''a NEEDLE here''))],
              JObj [(js ''id'', JNum (Number (js ''3''))), (js ''title'', JNum (Number (js ''7'')))]]),
           (js ''next'', JNull)]"
  let ?notes = "[JObj [(js ''id'', JNum (Number (js ''1''))), (js ''title'', JStr (js ''Alpha''))],
              JObj [(js ''id'', JNum (Number (js ''2''))), (js ''title'', JStr (js ''Beta'')),
                    (js ''content_markdown'', JStr (js ''a NEEDLE here''))],
              JObj [(js ''id'', JNum (Number (js ''3''))), (js ''title'', JNum (Number (js ''7'')))]]"
  let ?resp = "\<lparr>ok = True, status = Number (js ''200''), statusText = js ''OK'',
          text_body = Inr [], json_body = Inr three_notes\<rparr>"
  let ?nresp = "\<lparr>ok = True, status = Number (js ''200''), statusText = js ''OK'',
          text_body = Inr [], json_body = Inr (JObj [(js ''data'', JArr [JNull])])\<rparr>"
  let ?rq = "\<lparr>http_method = js ''GET'',
                  headers = [(js ''Authorization'', js ''Bearer '' @ apiKey (new_AttioClient (js ''k1''))),
                             (js ''Content-Type'', js ''application/json'')],
                  body = None,
                  url = baseUrl (new_AttioClient (js ''k1'')) @ js ''/notes?limit=''
                        @ Number_toString (Number (js ''50''))\<rparr>"
  have h1: "fetch_notes ?rq = Inr ?resp"
    by (simp add: fetch_notes_def)
  have h2: "ok ?resp" by simp
  have h3: "json_body ?resp = Inr (JObj ?page)" by (simp add: three_notes_def)
  have h4: "map_of ?page (js ''data'') = Some (JArr ?notes)" by simp
  have n1: "fetch_null_note ?rq = Inr ?nresp"
    by (simp add: fetch_null_note_def)
  have n2: "ok ?nresp" by simp
  have n3: "json_body ?nresp = Inr (JObj [(js ''data'', JArr [JNull])])" by simp
  have n4: "map_of [(js ''data'', JArr [JNull])] (js ''data'') = Some (JArr [JNull])" by simp
  have q: "toLowerCase_ascii (js ''needle'') = js ''needle''"
    by (simp add: toLowerCase_ascii_def js_def)
  have t1: "js ''needle'' \<noteq> [] \<and> trim (js ''needle'') \<noteq> []"
    by (simp add: trim_def is_white_def js_def)
  have t2: "trim [0xA0, 0x20] = []"
    by (simp add: trim_def is_white_def)
  have m1: "\<not> note_mentions toLowerCase_ascii (js ''needle'')
               (JObj [(js ''id'', JNum (Number (js ''1''))), (js ''title'', JStr (js ''Alpha''))])"
    by (simp add: note_mentions_def toLowerCase_ascii_def js_def)
  have m2: "note_mentions toLowerCase_ascii (js ''needle'')
               (JObj [(js ''id'', JNum (Number (js ''2''))), (js ''title'', JStr (js ''Beta'')),
                      (js ''content_markdown'', JStr (js ''a NEEDLE here''))])"
    by (simp add: note_mentions_def toLowerCase_ascii_def js_def)
  have m3: "\<not> note_mentions toLowerCase_ascii (js ''needle'')
               (JObj [(js ''id'', JNum (Number (js ''3''))), (js ''title'', JNum (Number (js ''7'')))])"
    by (simp add: note_mentions_def toLowerCase_ascii_def js_def)
  note a = searchNotes_filters_fetched_page
      [where this = "new_AttioClient (js ''k1'')" and fetch = fetch_notes
         and limit = "Number (js ''50'')" and toLowerCase = toLowerCase_ascii
         and query = "js ''needle''", OF h1 h2 h3 h4]
  note b = searchNotes_filters_fetched_page
      [where this = "new_AttioClient (js ''k1'')" and fetch = fetch_notes
         and limit = "Number (js ''50'')" and toLowerCase = toLowerCase_ascii
         and query = "[0xA0, 0x20]", OF h1 h2 h3 h4]
  note c = searchNotes_filters_fetched_page
      [where this = "new_AttioClient (js ''k1'')" and fetch = fetch_null_note
         and limit = "Number (js ''50'')" and toLowerCase = toLowerCase_ascii
         and query = "js ''needle''", OF n1 n2 n3 n4]
  have r1: "snd (searchNotes toLowerCase_ascii (new_AttioClient (js ''k1'')) fetch_notes
                  (js ''needle'') (Number (js ''50''))) =
      [\<lparr>http_method = js ''GET'',
        headers = [(js ''Authorization'', js ''Bearer k1''),
                   (js ''Content-Type'', js ''application/json'')],
        body = None,
        url = js ''https://api.attio.com/v2/notes?limit=50''\<rparr>]"
    unfolding a [THEN conjunct1]
    by (simp add: new_AttioClient_def ATTIO_API_URL_def js_append js_append_left)
  have r2: "fst (searchNotes toLowerCase_ascii (new_AttioClient (js ''k1'')) fetch_notes
                  (js ''needle'') (Number (js ''50''))) =
      Inr (JObj [(js ''data'', JArr
                   [JObj [(js ''id'', JNum (Number (js ''2''))), (js ''title'', JStr (js ''Beta'')),
                          (js ''content_markdown'', JStr (js ''a NEEDLE here''))]]),
                 (js ''next'', JNull)])"
    using a [THEN conjunct2, THEN conjunct2, THEN conjunct1] t1
    by (simp add: q m1 m2 m3)
  have r3: "fst (searchNotes toLowerCase_ascii (new_AttioClient (js ''k1'')) fetch_notes [0xA0, 0x20]
           (Number (js ''50''))) = Inr three_notes"
    using b [THEN conjunct2, THEN conjunct1] t2 by (simp add: three_notes_def)
  have r4: "fst (searchNotes toLowerCase_ascii (new_AttioClient (js ''k1'')) fetch_null_note
           (js ''needle'') (Number (js ''50''))) =
       Inl (TypeError (js ''Cannot read properties of null (reading '' @ [0x27]
                       @ js ''title'' @ [0x27] @ js '')''))"
    using c [THEN conjunct2, THEN conjunct2, THEN conjunct2, THEN conjunct1] t1 by simp
  from r1 r2 r3 r4 show ?thesis by (simp add: prod_eq_iff)
qed

text \<open>
  C4, as the claim words it, fails: on a page whose first element is \<^verbatim>\<open>null\<close> and whose
  second element is a note that mentions the query, a search for \<^verbatim>\<open>needle\<close> does not
  return the matching note; it throws.
\<close>

theorem searchNotes_null_before_match_counterexample:
  "fst (searchNotes toLowerCase_ascii (new_AttioClient (js ''k1'')) fetch_null_then_match
          (js ''needle'') (Number (js ''50'')))
     \<noteq> Inr (JObj [(js ''data'', JArr [JObj [(js ''title'', JStr (js ''the needle''))]])])
   \<and> fst (searchNotes toLowerCase_ascii (new_AttioClient (js ''k1'')) fetch_null_then_match
          (js ''needle'') (Number (js ''50''))) =
       Inl (TypeError (js ''Cannot read properties of null (reading '' @ [0x27]
                       @ js ''title'' @ [0x27] @ js '')''))"
proof -
  have t: "trim (js ''needle'') \<noteq> []"
    by (simp add: trim_def is_white_def js_def)
  have "fst (searchNotes toLowerCase_ascii (new_AttioClient (js ''k1'')) fetch_null_then_match
          (js ''needle'') (Number (js ''50''))) =
       Inl (TypeError (js ''Cannot read properties of null (reading '' @ [0x27]
                       @ js ''title'' @ [0x27] @ js '')''))"
    by (simp add: searchNotes_def makeRequest_def fetch_null_then_match_def guard_notes_def
        has_data_array_def data_of_def note_matches_null Let_def t)
  then show ?thesis by simp
qed

text \<open>
  C10, as the claim words it, fails: the filter is not total over every element shape.
  On a listing whose \<^verbatim>\<open>data\<close> holds a \<^verbatim>\<open>null\<close> element, a search with a query that is
  not blank throws a \<^verbatim>\<open>TypeError\<close> at the first property read.
\<close>

theorem searchNotes_null_note_counterexample:
  "fst (searchNotes toLowerCase_ascii (new_AttioClient (js ''k1'')) fetch_null_note (js ''x'')
          (Number (js ''50''))) =
     Inl (TypeError (js ''Cannot read properties of null (reading '' @ [0x27] @ js ''title''
                     @ [0x27] @ js '')''))"
proof -
  have t: "trim (js ''x'') \<noteq> []"
    by (simp add: trim_def is_white_def js_def)
  show ?thesis
    by (simp add: searchNotes_def makeRequest_def fetch_null_note_def guard_notes_def
        has_data_array_def data_of_def note_matches_null Let_def t)
qed

text \<open>
  C10, as the code has it. When the answer of the backend is not an object with an
  array-valued \<^verbatim>\<open>data\<close>, \<^verbatim>\<open>searchNotes\<close> returns \<^verbatim>\<open>{data: []}\<close>. When no element of the
  listing is \<^verbatim>\<open>null\<close>, \<^verbatim>\<open>searchNotes\<close> returns a result. The callback of the filter
  does not throw on any element other than \<^verbatim>\<open>null\<close>, and such an element none of whose
  three fields is a string does not match.
\<close>

theorem searchNotes_tolerates_malformed_listing:
  assumes "fetch \<lparr>http_method = js ''GET'',
                  headers = [(js ''Authorization'', js ''Bearer '' @ apiKey this),
                             (js ''Content-Type'', js ''application/json'')],
                  body = None,
                  url = baseUrl this @ js ''/notes?limit='' @ Number_toString limit\<rparr> = Inr resp"
      and "ok resp"
      and "json_body resp = Inr raw"
  shows "(\<not> has_data_array raw \<longrightarrow>
            fst (searchNotes toLowerCase this fetch query limit) = Inr (JObj [(js ''data'', JArr [])]))
         \<and> (JNull \<notin> set (data_of (guard_notes raw)) \<longrightarrow>
              (\<exists>r. fst (searchNotes toLowerCase this fetch query limit) = Inr r))
         \<and> (\<forall>x q. x \<noteq> JNull \<longrightarrow>
              note_matches toLowerCase q x = Inr (note_mentions toLowerCase q x))
         \<and> (\<forall>x q. x \<noteq> JNull
                \<and> (\<forall>s. get_prop x (js ''title'') \<noteq> Inr (Some (JStr s)))
                \<and> (\<forall>s. get_prop x (js ''content_plaintext'') \<noteq> Inr (Some (JStr s)))
                \<and> (\<forall>s. get_prop x (js ''content_markdown'') \<noteq> Inr (Some (JStr s)))
              \<longrightarrow> note_matches toLowerCase q x = Inr False)"
proof -
  have mk: "makeRequest this fetch (js ''/notes?limit='' @ Number_toString limit)
              \<lparr>http_method = js ''GET'', headers = [], body = None\<rparr> =
            (json_body resp,
             [\<lparr>http_method = js ''GET'',
               headers = [(js ''Authorization'', js ''Bearer '' @ apiKey this),
                          (js ''Content-Type'', js ''application/json'')],
               body = None,
               url = baseUrl this @ js ''/notes?limit='' @ Number_toString limit\<rparr>])"
    using assms(1) assms(2) by (simp add: makeRequest_def Let_def)
  have a: "\<not> has_data_array raw \<Longrightarrow>
            fst (searchNotes toLowerCase this fetch query limit) = Inr (JObj [(js ''data'', JArr [])])"
  proof -
    assume n: "\<not> has_data_array raw"
    then have g: "guard_notes raw = [(js ''data'', JArr [])]"
      by (cases raw) (simp_all add: guard_notes_def)
    show ?thesis
      unfolding searchNotes_def mk by (simp add: assms(3) g data_of_def Let_def)
  qed
  have b: "JNull \<notin> set (data_of (guard_notes raw)) \<Longrightarrow>
              (\<exists>r. fst (searchNotes toLowerCase this fetch query limit) = Inr r)"
  proof -
    assume n: "JNull \<notin> set (data_of (guard_notes raw))"
    have "\<forall>x \<in> set (data_of (guard_notes raw)). note_matches toLowerCase (toLowerCase query) x =
             Inr (note_mentions toLowerCase (toLowerCase query) x)"
      using n note_matches_record by metis
    then have "Array_filter (note_matches toLowerCase (toLowerCase query)) (data_of (guard_notes raw)) =
             Inr (filter (note_mentions toLowerCase (toLowerCase query)) (data_of (guard_notes raw)))"
      by (rule Array_filter_total)
    then show ?thesis
      unfolding searchNotes_def mk by (simp add: assms(3) Let_def)
  qed
  have c: "\<forall>x q. x \<noteq> JNull \<longrightarrow>
             note_matches toLowerCase q x = Inr (note_mentions toLowerCase q x)"
    using note_matches_record by blast
  have d: "\<forall>x q. x \<noteq> JNull
                \<and> (\<forall>s. get_prop x (js ''title'') \<noteq> Inr (Some (JStr s)))
                \<and> (\<forall>s. get_prop x (js ''content_plaintext'') \<noteq> Inr (Some (JStr s)))
                \<and> (\<forall>s. get_prop x (js ''content_markdown'') \<noteq> Inr (Some (JStr s)))
              \<longrightarrow> note_matches toLowerCase q x = Inr False"
    by (auto simp add: note_matches_record note_mentions_def
        split: sum.splits option.splits json.splits)
  from a b c d show ?thesis by blast
qed

theorem searchNotes_tolerates_malformed_listing_witness:
  "fst (searchNotes toLowerCase_ascii (new_AttioClient (js ''k1'')) fetch_not_listing (js ''x'')
          (Number (js ''50''))) =
     Inr (JObj [(js ''data'', JArr [])])
   \<and> fst (searchNotes toLowerCase_ascii (new_AttioClient (js ''k1'')) fetch_not_listing []
          (Number (js ''50''))) =
     Inr (JObj [(js ''data'', JArr [])])
   \<and> note_matches toLowerCase_ascii (js ''x'') (JObj [(js ''title'', JNum (Number (js ''7'')))])
       = Inr False
   \<and> note_matches toLowerCase_ascii (js ''x'') (JNum (Number (js ''3''))) = Inr False"
proof -
  let ?resp = "\<lparr>ok = True, status = Number (js ''200''), statusText = js ''OK'',
          text_body = Inr [], json_body = Inr (JObj [(js ''data'', JStr (js ''none''))])\<rparr>"
  have h1: "fetch_not_listing \<lparr>http_method = js ''GET'',
                  headers = [(js ''Authorization'', js ''Bearer '' @ apiKey (new_AttioClient (js ''k1''))),
                             (js ''Content-Type'', js ''application/json'')],
                  body = None,
                  url = baseUrl (new_AttioClient (js ''k1'')) @ js ''/notes?limit=''
                        @ Number_toString (Number (js ''50''))\<rparr>
             = Inr ?resp"
    by (simp add: fetch_not_listing_def)
  have h2: "ok ?resp" by simp
  have h3: "json_body ?resp = Inr (JObj [(js ''data'', JStr (js ''none''))])" by simp
  have h4: "\<not> has_data_array (JObj [(js ''data'', JStr (js ''none''))])"
    by (simp add: has_data_array_def)
  have h5: "\<forall>s. get_prop (JObj [(js ''title'', JNum (Number (js ''7'')))]) (js ''title'')
                  \<noteq> Inr (Some (JStr s))"
           "\<forall>s. get_prop (JObj [(js ''title'', JNum (Number (js ''7'')))]) (js ''content_plaintext'')
                  \<noteq> Inr (Some (JStr s))"
           "\<forall>s. get_prop (JObj [(js ''title'', JNum (Number (js ''7'')))]) (js ''content_markdown'')
                  \<noteq> Inr (Some (JStr s))"
           "\<forall>s k. get_prop (JNum (Number (js ''3''))) k \<noteq> Inr (Some (JStr s))"
    by simp_all
  note t1 = searchNotes_tolerates_malformed_listing
        [where this = "new_AttioClient (js ''k1'')" and fetch = fetch_not_listing
           and limit = "Number (js ''50'')" and toLowerCase = toLowerCase_ascii
           and query = "js ''x''", OF h1 h2 h3]
  note t2 = searchNotes_tolerates_malformed_listing
        [where this = "new_AttioClient (js ''k1'')" and fetch = fetch_not_listing
           and limit = "Number (js ''50'')" and toLowerCase = toLowerCase_ascii
           and query = "[]", OF h1 h2 h3]
  have a: "fst (searchNotes toLowerCase_ascii (new_AttioClient (js ''k1'')) fetch_not_listing
                  (js ''x'') (Number (js ''50''))) =
     Inr (JObj [(js ''data'', JArr [])])"
    using t1 h4 by blast
  have b: "fst (searchNotes toLowerCase_ascii (new_AttioClient (js ''k1'')) fetch_not_listing []
                  (Number (js ''50''))) =
     Inr (JObj [(js ''data'', JArr [])])"
    using t2 h4 by blast
  have c: "note_matches toLowerCase_ascii (js ''x'') (JObj [(js ''title'', JNum (Number (js ''7'')))])
             = Inr False"
    using t1 h5(1) h5(2) h5(3) by blast
  have d: "note_matches toLowerCase_ascii (js ''x'') (JNum (Number (js ''3''))) = Inr False"
    using t1 h5(4) by blast
  from a b c d show ?thesis by blast
qed

end
